theory Spec2Isabelle
  imports Complex_Main "HOL-Library.Sublist" "HOL-Library.Multiset" "HOL-Library.Log_Nat"
begin

section \<open>Python strings\<close>

text \<open>
  A Python \<^verbatim>\<open>str\<close> is modelled as a \<^typ>\<open>string\<close>: a list of 8-bit characters,
  each read as the code point of the same number (Latin-1 text). \<^verbatim>\<open>str.lower()\<close>
  moves the capital letters A-Z (65-90) and the Latin-1 capitals 192-222 (all but the
  multiplication sign 215) up by 32 and leaves every other character alone.
\<close>

definition lower_char :: "char \<Rightarrow> char" where
  "lower_char c = (let n = (of_char c :: nat) in
     if (65 \<le> n \<and> n \<le> 90) \<or> (192 \<le> n \<and> n \<le> 222 \<and> n \<noteq> 215)
     then char_of (n + 32) else c)"

definition lower :: "string \<Rightarrow> string" where
  "lower s = map lower_char s"

text \<open>\<^verbatim>\<open>needle in hay\<close> on strings: \<open>needle\<close> occurs in \<open>hay\<close> as a contiguous run.\<close>

fun isin :: "string \<Rightarrow> string \<Rightarrow> bool" where
  "isin needle [] = (needle = [])"
| "isin needle (c # cs) = (prefix needle (c # cs) \<or> isin needle cs)"

section \<open>Subsystem categorizers\<close>

subsection \<open>\<^verbatim>\<open>categorize\<close> of scripts/analyze\_flamegraph\_simple.py\<close>

definition categorize :: "string \<Rightarrow> string" where
  "categorize func_name = (let name_lower = lower func_name in
     if isin ''__pthread_cond_wait'' name_lower \<or> isin ''cond_wait'' name_lower
       then ''Lock Wait''
     else if isin ''pthread'' name_lower \<or> isin ''mutex'' name_lower \<or> isin ''lock'' name_lower
       then ''Synchronization''
     else if isin ''moka'' name_lower \<or> isin ''cache'' name_lower \<or> isin ''evict'' name_lower
       then ''Cache''
     else if isin ''tokio::runtime::task'' name_lower \<or> isin ''run_task'' name_lower
             \<or> isin ''poll'' name_lower
       then ''Async/Task''
     else if isin ''spawn'' name_lower \<or> isin ''blocking'' name_lower
       then ''Task Spawning''
     else if isin ''encrypt'' name_lower \<or> isin ''decrypt'' name_lower
             \<or> isin ''gcm'' name_lower \<or> isin ''siv'' name_lower
       then ''Encryption''
     else if isin ''write'' name_lower \<and> isin ''operations'' name_lower
       then ''Write Operations''
     else if isin ''read'' name_lower \<and> isin ''operations'' name_lower
       then ''Read Operations''
     else if isin ''getattr'' name_lower \<or> isin ''lookup'' name_lower \<or> isin ''stat'' name_lower
       then ''Metadata Ops''
     else ''Other'')"

subsection \<open>\<^verbatim>\<open>categorize_function\<close> of scripts/extract\_flamegraph\_hotspots.py\<close>

text \<open>\<^verbatim>\<open>any(x in name_lower for x in keywords)\<close>.\<close>

definition any_in :: "string list \<Rightarrow> string \<Rightarrow> bool" where
  "any_in keywords name_lower = list_ex (\<lambda>x. isin x name_lower) keywords"

definition categorize_function :: "string \<Rightarrow> string" where
  "categorize_function func_name = (let name_lower = lower func_name in
     if any_in [''pthread'', ''cond_wait'', ''wait'', ''lock'', ''mutex'', ''futex''] name_lower
       then ''Lock/Sync''
     else if any_in [''moka'', ''cache'', ''evict'', ''insert''] name_lower
       then ''Cache''
     else if any_in [''read'', ''write'', ''getattr'', ''lookup'', ''stat''] name_lower
       then ''FUSE Ops''
     else if any_in [''encrypt'', ''decrypt'', ''aes'', ''gcm'', ''siv'', ''crypto''] name_lower
       then ''Crypto''
     else if any_in [''tokio'', ''spawn'', ''task'', ''executor'', ''park''] name_lower
       then ''Async Runtime''
     else if any_in [''dashmap'', ''dash'', ''hashmap'', ''map''] name_lower
       then ''Data Structure''
     else if any_in [''arc'', ''clone'', ''drop''] name_lower
       then ''Memory''
     else ''Other'')"

subsection \<open>The category chain of \<^verbatim>\<open>categorize_functions\<close> in analyze\_flamegraph.py\<close>

text \<open>
  Lines 38-55: the chain that picks the category of one function inside the loop. Its
  first, second, fifth and sixth tests look at the label as it is; the others at its
  lower-case form.
\<close>

definition category_of :: "string \<Rightarrow> string" where
  "category_of func =
    (if isin ''fuser::'' func \<or> isin ''fuse_'' func then ''FUSE Layer''
     else if isin ''oxcrypt_core::'' func \<or> isin ''oxcrypt_'' func then ''Crypto Core''
     else if isin ''encrypt'' (lower func) \<or> isin ''decrypt'' (lower func)
       then ''Encryption/Decryption''
     else if isin ''aes'' (lower func) \<or> isin ''gcm'' (lower func) \<or> isin ''siv'' (lower func)
       then ''AES Primitives''
     else if isin ''tokio::'' func \<or> isin ''async'' (lower func) then ''Async Runtime''
     else if isin ''std::io'' func \<or> isin ''::fs::'' func then ''I/O Operations''
     else if isin ''dashmap'' (lower func) \<or> isin ''cache'' (lower func) then ''Caching''
     else if isin ''lock'' (lower func) \<or> isin ''mutex'' (lower func) then ''Synchronization''
     else ''Other'')"

subsection \<open>The contract in the specification's words: an ordered rule list\<close>

text \<open>
  The specification describes a categorizer as an ordered list of (predicate, category)
  pairs, evaluated in sequence, the first match deciding, with a catch-all category when
  none matches. \<open>first_match\<close> is that description; the two rule lists below write the
  taxonomy of each source categorizer in its order.
\<close>

type_synonym rule = "(string \<Rightarrow> bool) \<times> string"

fun first_match :: "rule list \<Rightarrow> string \<Rightarrow> string \<Rightarrow> string" where
  "first_match [] catch_all label = catch_all"
| "first_match (r # rs) catch_all label =
     (if fst r label then snd r else first_match rs catch_all label)"

text \<open>A keyword predicate: the keyword occurs in the lower-cased label.\<close>

definition kw :: "string \<Rightarrow> string \<Rightarrow> bool" where
  "kw k label = isin k (lower label)"

definition categorize_rules :: "rule list" where
  "categorize_rules =
   [(\<lambda>l. kw ''__pthread_cond_wait'' l \<or> kw ''cond_wait'' l, ''Lock Wait''),
    (\<lambda>l. kw ''pthread'' l \<or> kw ''mutex'' l \<or> kw ''lock'' l, ''Synchronization''),
    (\<lambda>l. kw ''moka'' l \<or> kw ''cache'' l \<or> kw ''evict'' l, ''Cache''),
    (\<lambda>l. kw ''tokio::runtime::task'' l \<or> kw ''run_task'' l \<or> kw ''poll'' l, ''Async/Task''),
    (\<lambda>l. kw ''spawn'' l \<or> kw ''blocking'' l, ''Task Spawning''),
    (\<lambda>l. kw ''encrypt'' l \<or> kw ''decrypt'' l \<or> kw ''gcm'' l \<or> kw ''siv'' l, ''Encryption''),
    (\<lambda>l. kw ''write'' l \<and> kw ''operations'' l, ''Write Operations''),
    (\<lambda>l. kw ''read'' l \<and> kw ''operations'' l, ''Read Operations''),
    (\<lambda>l. kw ''getattr'' l \<or> kw ''lookup'' l \<or> kw ''stat'' l, ''Metadata Ops'')]"

definition categorize_function_rules :: "rule list" where
  "categorize_function_rules =
   [(\<lambda>l. list_ex (\<lambda>k. kw k l)
            [''pthread'', ''cond_wait'', ''wait'', ''lock'', ''mutex'', ''futex''], ''Lock/Sync''),
    (\<lambda>l. list_ex (\<lambda>k. kw k l) [''moka'', ''cache'', ''evict'', ''insert''], ''Cache''),
    (\<lambda>l. list_ex (\<lambda>k. kw k l) [''read'', ''write'', ''getattr'', ''lookup'', ''stat''],
       ''FUSE Ops''),
    (\<lambda>l. list_ex (\<lambda>k. kw k l)
            [''encrypt'', ''decrypt'', ''aes'', ''gcm'', ''siv'', ''crypto''], ''Crypto''),
    (\<lambda>l. list_ex (\<lambda>k. kw k l) [''tokio'', ''spawn'', ''task'', ''executor'', ''park''],
       ''Async Runtime''),
    (\<lambda>l. list_ex (\<lambda>k. kw k l) [''dashmap'', ''dash'', ''hashmap'', ''map''],
       ''Data Structure''),
    (\<lambda>l. list_ex (\<lambda>k. kw k l) [''arc'', ''clone'', ''drop''], ''Memory'')]"

section \<open>Python floats\<close>

text \<open>
  A Python float is an IEEE 754 double. A finite double is held as the rational it
  denotes, and \<open>fl\<close> rounds a rational to the nearest double, ties to the even
  significand: 53 significant bits, the unit in the last place never below \<open>2 powi -1074\<close>.
  \<open>ilog2 x\<close> is the exponent of the leading bit of \<open>x\<close>. The range is the finite one: a
  result of magnitude \<open>2 ^ 1024\<close> or more, which is \<^verbatim>\<open>inf\<close> in Python, is outside the
  model.
\<close>

definition round_half_even :: "rat \<Rightarrow> int" where
  "round_half_even x =
    (let f = \<lfloor>x\<rfloor>; r = x - of_int f in
     if r < 1 / 2 then f else if r > 1 / 2 then f + 1 else if even f then f else f + 1)"

definition ilog2 :: "rat \<Rightarrow> int" where
  "ilog2 x = (if \<bar>x\<bar> \<ge> 1 then bitlen \<lfloor>\<bar>x\<bar>\<rfloor> - 1 else - bitlen (\<lceil>1 / \<bar>x\<bar>\<rceil> - 1))"

definition fl :: "rat \<Rightarrow> rat" where
  "fl x = (if x = 0 then 0
           else let e = max (ilog2 x - 52) (- 1074)
                in of_int (round_half_even (x / 2 powi e)) * 2 powi e)"

text \<open>\<^verbatim>\<open>a + b\<close> on floats, and on an int and a float: the exact sum, rounded.\<close>

definition fl_add :: "rat \<Rightarrow> rat \<Rightarrow> rat" where
  "fl_add a b = fl (a + b)"

text \<open>The sum of a list of floats by additions from the left, starting from 0.\<close>

definition float_sum :: "rat list \<Rightarrow> rat" where
  "float_sum xs = foldl fl_add 0 xs"

section \<open>Aggregation by category\<close>

subsection \<open>scripts/analyze\_flamegraph\_simple.py, lines 74 and 97-100\<close>

text \<open>
  One element of \<^verbatim>\<open>hotspots\<close>: the dict with keys \<^verbatim>\<open>'name'\<close>, \<^verbatim>\<open>'samples'\<close> (an int)
  and \<^verbatim>\<open>'percentage'\<close> (a float, here a rational).
\<close>

record hotspot =
  h_name :: string
  h_samples :: int
  h_percentage :: rat

text \<open>
  \<^verbatim>\<open>categories[cat] += n\<close> on a \<^verbatim>\<open>defaultdict(int)\<close>. The dict is an association list
  in insertion order, one entry per key: an absent key starts from 0 at the end of the
  list, a present key is updated in place.
\<close>

fun dict_add :: "string \<Rightarrow> int \<Rightarrow> (string \<times> int) list \<Rightarrow> (string \<times> int) list" where
  "dict_add k n [] = [(k, 0 + n)]"
| "dict_add k n ((k', m) # kvs) =
     (if k' = k then (k', m + n) # kvs else (k', m) # dict_add k n kvs)"

text \<open>Line 74: \<^verbatim>\<open>total_samples = sum(h['samples'] for h in hotspots)\<close>.\<close>

definition sum_samples :: "hotspot list \<Rightarrow> int" where
  "sum_samples hotspots = sum_list (map h_samples hotspots)"

definition category_totals :: "hotspot list \<Rightarrow> (string \<times> int) list" where
  "category_totals hotspots =
     foldl (\<lambda>categories h. dict_add (categorize (h_name h)) (h_samples h) categories) [] hotspots"

subsection \<open>\<^verbatim>\<open>categorize_functions\<close> of analyze\_flamegraph.py\<close>

text \<open>
  A function is the tuple (label, samples, percentage); both numbers are Python floats.
  A category's value is the dict with the running total \<^verbatim>\<open>'samples'\<close>, which starts
  from the int 0 and grows by float additions, and the list \<^verbatim>\<open>'functions'\<close>.
\<close>

type_synonym func = "string \<times> rat \<times> rat"

record cat_data =
  cat_samples :: rat
  cat_functions :: "func list"

fun cat_add :: "string \<Rightarrow> func \<Rightarrow> (string \<times> cat_data) list \<Rightarrow> (string \<times> cat_data) list" where
  "cat_add k f [] = [(k, \<lparr>cat_samples = fl_add 0 (fst (snd f)), cat_functions = [f]\<rparr>)]"
| "cat_add k f ((k', d) # kvs) =
     (if k' = k
      then (k', \<lparr>cat_samples = fl_add (cat_samples d) (fst (snd f)),
                 cat_functions = cat_functions d @ [f]\<rparr>) # kvs
      else (k', d) # cat_add k f kvs)"

definition categorize_functions :: "func list \<Rightarrow> (string \<times> cat_data) list" where
  "categorize_functions functions =
     foldl (\<lambda>categories f. cat_add (category_of (fst f)) f categories) [] functions"

section \<open>Exceptions\<close>

text \<open>The Python exceptions that the modelled code can raise.\<close>

datatype error = ZeroDivisionError | TypeError | ValueError

text \<open>True division \<^verbatim>\<open>a / b\<close> on numbers.\<close>

definition py_div :: "rat \<Rightarrow> rat \<Rightarrow> error + rat" where
  "py_div a b = (if b = 0 then Inl ZeroDivisionError else Inr (a / b))"

section \<open>Regular expressions\<close>

text \<open>
  The patterns of the sources use literals, character classes, greedy and lazy
  repetition of a single class, alternation of sequences and capture groups that do not
  nest. A pattern is the list of its tokens; \<open>bt\<close> is the backtracking matcher of
  Python's \<^verbatim>\<open>re\<close>: it tries the alternatives of each token in priority order (a greedy
  star takes a character first, a lazy star tries the rest of the pattern first, an
  alternation its left branch first) and returns the first way in which the whole
  pattern matches a prefix of the text, as the captured groups and the text left over.
\<close>

datatype cls = Any | Lit char | Rng char char | Except char | Either cls cls | Whitespace

text \<open>The characters below 256 that \<^verbatim>\<open>\s\<close> matches in a \<^verbatim>\<open>str\<close> pattern.\<close>

definition whitespace :: "char list" where
  "whitespace = [CHR 0x09, CHR 0x0A, CHR 0x0B, CHR 0x0C, CHR 0x0D, CHR 0x1C, CHR 0x1D,
                 CHR 0x1E, CHR 0x1F, CHR 0x20, CHR 0x85, CHR 0xA0]"

fun cls_match :: "cls \<Rightarrow> char \<Rightarrow> bool" where
  "cls_match Any x = True"
| "cls_match (Lit c) x = (x = c)"
| "cls_match (Rng lo hi) x =
     ((of_char lo :: nat) \<le> of_char x \<and> (of_char x :: nat) \<le> of_char hi)"
| "cls_match (Except c) x = (x \<noteq> c)"
| "cls_match (Either a b) x = (cls_match a x \<or> cls_match b x)"
| "cls_match Whitespace x = (x \<in> set whitespace)"

datatype tok = One cls | Star cls | LazyStar cls | Alt "tok list" "tok list" | Open | Close

text \<open>
  The matcher's state: the groups closed so far, in order, and the text of the group
  that is open, if one is.
\<close>

type_synonym mstate = "string list \<times> string option"

fun consume :: "char \<Rightarrow> mstate \<Rightarrow> mstate" where
  "consume x (gs, None) = (gs, None)"
| "consume x (gs, Some t) = (gs, Some (t @ [x]))"

fun group_open :: "mstate \<Rightarrow> mstate" where
  "group_open (gs, cur) = (gs, Some [])"

fun group_close :: "mstate \<Rightarrow> mstate" where
  "group_close (gs, None) = (gs, None)"
| "group_close (gs, Some t) = (gs @ [t], None)"

function bt :: "tok list \<Rightarrow> string \<Rightarrow> mstate \<Rightarrow> (string list \<times> string) option" where
  "bt [] s st = Some (fst st, s)"
| "bt (One c # ts) [] st = None"
| "bt (One c # ts) (x # xs) st = (if cls_match c x then bt ts xs (consume x st) else None)"
| "bt (Star c # ts) [] st = bt ts [] st"
| "bt (Star c # ts) (x # xs) st =
     (if cls_match c x
      then (case bt (Star c # ts) xs (consume x st) of
              Some r \<Rightarrow> Some r
            | None \<Rightarrow> bt ts (x # xs) st)
      else bt ts (x # xs) st)"
| "bt (LazyStar c # ts) [] st = bt ts [] st"
| "bt (LazyStar c # ts) (x # xs) st =
     (case bt ts (x # xs) st of
        Some r \<Rightarrow> Some r
      | None \<Rightarrow> if cls_match c x then bt (LazyStar c # ts) xs (consume x st) else None)"
| "bt (Alt a b # ts) s st =
     (case bt (a @ ts) s st of Some r \<Rightarrow> Some r | None \<Rightarrow> bt (b @ ts) s st)"
| "bt (Open # ts) s st = bt ts s (group_open st)"
| "bt (Close # ts) s st = bt ts s (group_close st)"
  by pat_completeness auto
termination
  by (relation "measure (\<lambda>(ts, s, st). size_list size ts + length s)") auto

text \<open>\<^verbatim>\<open>re.search\<close>: the match at the leftmost position that has one.\<close>

fun re_search :: "tok list \<Rightarrow> string \<Rightarrow> (string list \<times> string) option" where
  "re_search p [] = bt p [] ([], None)"
| "re_search p (x # xs) =
     (case bt p (x # xs) ([], None) of Some r \<Rightarrow> Some r | None \<Rightarrow> re_search p xs)"

text \<open>
  \<^verbatim>\<open>re.findall\<close>: the groups of every match, left to right, each search starting where
  the previous match ended (one character further after an empty match).
\<close>

function findall :: "tok list \<Rightarrow> string \<Rightarrow> string list list" where
  "findall p [] = (case bt p [] ([], None) of Some (g, rest) \<Rightarrow> [g] | None \<Rightarrow> [])"
| "findall p (x # xs) =
     (case bt p (x # xs) ([], None) of
        None \<Rightarrow> findall p xs
      | Some (g, rest) \<Rightarrow>
          g # (if length rest < length (x # xs) then findall p rest else findall p xs))"
  by pat_completeness auto
termination
  by (relation "measure (\<lambda>(p, s). length s)") auto

text \<open>
  \<^verbatim>\<open>pattern.sub('', s)\<close> for a pattern that matches no empty text: every match is cut
  out, every other character is kept.
\<close>

function re_sub_empty :: "tok list \<Rightarrow> string \<Rightarrow> string" where
  "re_sub_empty p [] = []"
| "re_sub_empty p (x # xs) =
     (case bt p (x # xs) ([], None) of
        None \<Rightarrow> x # re_sub_empty p xs
      | Some (g, rest) \<Rightarrow>
          if length rest < length (x # xs) then re_sub_empty p rest
          else x # re_sub_empty p xs)"
  by pat_completeness auto
termination
  by (relation "measure (\<lambda>(p, s). length s)") auto

definition lits :: "string \<Rightarrow> tok list" where
  "lits s = map (\<lambda>c. One (Lit c)) s"

text \<open>\<^verbatim>\<open>c+\<close>, \<^verbatim>\<open>c+?\<close> and \<^verbatim>\<open>(?:...)?\<close>.\<close>

definition one_or_more :: "cls \<Rightarrow> tok list" where
  "one_or_more c = [One c, Star c]"

definition lazy_one_or_more :: "cls \<Rightarrow> tok list" where
  "lazy_one_or_more c = [One c, LazyStar c]"

definition optional :: "tok list \<Rightarrow> tok" where
  "optional ts = Alt ts []"

text \<open>\<^verbatim>\<open>\d\<close> (below 256 the decimal digits are 0-9), \<^verbatim>\<open>[a-z]\<close> and \<^verbatim>\<open>[\d.]\<close>.\<close>

definition digit :: cls where
  "digit = Rng CHR ''0'' CHR ''9''"

definition lowercase :: cls where
  "lowercase = Rng CHR ''a'' CHR ''z''"

definition digit_or_dot :: cls where
  "digit_or_dot = Either digit (Lit CHR ''.'')"

section \<open>Numbers from text\<close>

text \<open>
  \<^verbatim>\<open>int(s)\<close> and \<^verbatim>\<open>float(s)\<close> are only applied to the text of a group made of digits
  and dots. \<open>int_of\<close> reads a run of digits. \<open>float_of\<close> reads digits with at most one
  dot and at least one digit, as the exact rational the decimal denotes; on any other
  text it is \<open>None\<close>, Python's ValueError. The sample extraction rounds the value to a
  double with \<open>fl\<close>; the timing extraction keeps the exact value.
\<close>

definition is_digit :: "char \<Rightarrow> bool" where
  "is_digit c = cls_match digit c"

definition digits_val :: "string \<Rightarrow> nat" where
  "digits_val s = foldl (\<lambda>a c. 10 * a + (of_char c - 48)) 0 s"

definition int_of :: "string \<Rightarrow> int" where
  "int_of s = int (digits_val s)"

definition float_of :: "string \<Rightarrow> rat option" where
  "float_of s =
    (let ip = takeWhile is_digit s; r = dropWhile is_digit s in
     case r of
       [] \<Rightarrow> if ip = [] then None else Some (of_nat (digits_val ip))
     | c # fp \<Rightarrow>
         if c = CHR ''.'' \<and> list_all is_digit fp \<and> \<not> (ip = [] \<and> fp = [])
         then Some (of_nat (digits_val ip) + of_nat (digits_val fp) / 10 ^ length fp)
         else None)"

section \<open>benchmarks/compare\_results.py\<close>

subsection \<open>\<^verbatim>\<open>extract_metrics\<close>\<close>

text \<open>\<^verbatim>\<open>\x1B(?:[@-Z\\-_]|\[[0-?]*[ -/]*[@-~])\<close>\<close>

definition ansi_escape :: "tok list" where
  "ansi_escape =
     [One (Lit (CHR 0x1B)),
      Alt [One (Either (Rng CHR ''@'' CHR ''Z'') (Rng (CHR 0x5C) CHR ''_''))]
          [One (Lit CHR ''[''), Star (Rng CHR ''0'' CHR ''?''), Star (Rng CHR '' '' CHR ''/''),
           One (Rng CHR ''@'' CHR ''~'')]]"

text \<open>\<^verbatim>\<open>Time.*?mean.*?(\d+\.\d+)\s*([a-z]+).*?(\d+\.\d+)\s*([a-z]+)\<close>, with DOTALL.\<close>

definition timing_pattern :: "tok list" where
  "timing_pattern =
     lits ''Time'' @ [LazyStar Any] @ lits ''mean'' @ [LazyStar Any]
     @ [Open] @ one_or_more digit @ [One (Lit CHR ''.'')] @ one_or_more digit @ [Close]
     @ [Star Whitespace] @ [Open] @ one_or_more lowercase @ [Close]
     @ [LazyStar Any]
     @ [Open] @ one_or_more digit @ [One (Lit CHR ''.'')] @ one_or_more digit @ [Close]
     @ [Star Whitespace] @ [Open] @ one_or_more lowercase @ [Close]"

text \<open>
  The argument is the content of the file, or \<open>None\<close> when the file cannot be read: the
  exception is caught and the function returns \<^verbatim>\<open>None\<close>. So does a \<^verbatim>\<open>float()\<close> that
  fails. The result is (mean\_ms, sigma\_ms).
\<close>

fun extract_metrics :: "string option \<Rightarrow> (rat \<times> rat) option" where
  "extract_metrics None = None"
| "extract_metrics (Some content) =
    (let clean_content = re_sub_empty ansi_escape content in
     case re_search timing_pattern clean_content of
       Some ([g1, mean_unit, g3, sigma_unit], rest) \<Rightarrow>
         (case float_of g1 of
            None \<Rightarrow> None
          | Some mean_val \<Rightarrow>
             (case float_of g3 of
                None \<Rightarrow> None
              | Some sigma_val \<Rightarrow>
                 if mean_unit = ''s'' then
                   Some (mean_val * 1000,
                         if sigma_unit = ''ms'' then sigma_val
                         else if sigma_unit = ''s'' then sigma_val * 1000 else sigma_val)
                 else if mean_unit = ''ms'' then
                   Some (mean_val,
                         if sigma_unit = ''ms'' then sigma_val
                         else if sigma_unit = ''s'' then sigma_val * 1000 else sigma_val)
                 else None))
     | _ \<Rightarrow> None)"

subsection \<open>The comparison loop\<close>

text \<open>
  What the loop prints for one workload: the comparison (means, deviations,
  \<^verbatim>\<open>improvement_ms\<close>, \<^verbatim>\<open>improvement_pct\<close>) or the notice that the metrics could not be
  extracted, with whichever extraction did succeed.
\<close>

datatype report =
    Compared string rat rat rat rat rat rat
  | Could_not_extract string "(rat \<times> rat) option" "(rat \<times> rat) option"

text \<open>
  The body of the loop. \<^verbatim>\<open>if baseline and phase1\<close> holds when neither is \<^verbatim>\<open>None\<close> (a
  pair is never empty). \<^verbatim>\<open>improvement_pct\<close> is computed first and divides by the
  baseline mean.
\<close>

fun compare_workload ::
  "string \<Rightarrow> (rat \<times> rat) option \<Rightarrow> (rat \<times> rat) option \<Rightarrow> error + report" where
  "compare_workload workload (Some (baseline_mean, baseline_sigma)) (Some (phase1_mean, phase1_sigma)) =
     (case py_div (baseline_mean - phase1_mean) baseline_mean of
        Inl e \<Rightarrow> Inl e
      | Inr q \<Rightarrow>
          Inr (Compared workload baseline_mean baseline_sigma phase1_mean phase1_sigma
                 (baseline_mean - phase1_mean) (q * 100)))"
| "compare_workload workload baseline phase1 = Inr (Could_not_extract workload baseline phase1)"

text \<open>
  The loop over the workloads: the reports printed, and the exception that ended the run
  if one was raised (nothing catches it at module level).
\<close>

fun compare_all ::
  "(string \<times> (rat \<times> rat) option \<times> (rat \<times> rat) option) list \<Rightarrow> report list \<times> error option" where
  "compare_all [] = ([], None)"
| "compare_all ((workload, baseline, phase1) # rest) =
     (case compare_workload workload baseline phase1 of
        Inl e \<Rightarrow> ([], Some e)
      | Inr r \<Rightarrow> (r # fst (compare_all rest), snd (compare_all rest)))"

definition workloads :: "string list" where
  "workloads = [''concurrent'', ''media'', ''backup'']"

text \<open>The run on a file system \<open>files\<close> (the content of each readable path).\<close>

definition run_comparison :: "(string \<Rightarrow> string option) \<Rightarrow> report list \<times> error option" where
  "run_comparison files =
     compare_all (map (\<lambda>workload.
        (workload,
         extract_metrics (files (''benchmarks/baseline-'' @ workload @ ''.txt'')),
         extract_metrics (files (''benchmarks/phase1-'' @ workload @ ''.txt'')))) workloads)"

section \<open>Sample extraction\<close>

subsection \<open>\<^verbatim>\<open>parse_flamegraph\<close> of analyze\_flamegraph.py\<close>

text \<open>\<^verbatim>\<open><title>([^<]+?)\s+\((\d+(?:\.\d+)?)\s+samples?,\s+([\d.]+)%\)</title>\<close>\<close>

definition title_pattern :: "tok list" where
  "title_pattern =
     lits ''<title>'' @ [Open] @ lazy_one_or_more (Except CHR ''<'') @ [Close]
     @ one_or_more Whitespace @ [One (Lit CHR ''('')]
     @ [Open] @ one_or_more digit
     @ [optional ([One (Lit CHR ''.'')] @ one_or_more digit)] @ [Close]
     @ one_or_more Whitespace @ lits ''sample'' @ [optional [One (Lit CHR ''s'')]]
     @ [One (Lit CHR '','')] @ one_or_more Whitespace
     @ [Open] @ one_or_more digit_or_dot @ [Close] @ lits ''%)</title>''"

text \<open>
  The loop over the matches: a match whose numbers \<^verbatim>\<open>float()\<close> rejects is skipped
  (\<^verbatim>\<open>except ValueError: continue\<close>). \<^verbatim>\<open>float()\<close> returns the double nearest to the
  decimal it reads. The label is taken as matched.
\<close>

fun functions_of :: "string list list \<Rightarrow> func list" where
  "functions_of [] = []"
| "functions_of ([func_name, samples_str, pct_str] # matches) =
     (case float_of samples_str of
        None \<Rightarrow> functions_of matches
      | Some samples \<Rightarrow>
         (case float_of pct_str of
            None \<Rightarrow> functions_of matches
          | Some pct \<Rightarrow> (func_name, fl samples, fl pct) # functions_of matches))"
| "functions_of (g # matches) = functions_of matches"

definition parse_flamegraph :: "string \<Rightarrow> func list" where
  "parse_flamegraph content = functions_of (findall title_pattern content)"

subsection \<open>\<^verbatim>\<open>extract_hotspots\<close> of scripts/analyze\_flamegraph\_simple.py\<close>

text \<open>\<^verbatim>\<open>title>([^<]*?)\s*\((\d+) samples?,\s*([\d.]+)%\)\<close>\<close>

definition hotspot_pattern :: "tok list" where
  "hotspot_pattern =
     lits ''title>'' @ [Open, LazyStar (Except CHR ''<''), Close]
     @ [Star Whitespace, One (Lit CHR ''('')]
     @ [Open] @ one_or_more digit @ [Close]
     @ lits '' sample'' @ [optional [One (Lit CHR ''s'')]]
     @ [One (Lit CHR '',''), Star Whitespace]
     @ [Open] @ one_or_more digit_or_dot @ [Close] @ lits ''%)''"

text \<open>
  \<^verbatim>\<open>s.replace(old, new)\<close> for a non-empty \<open>old\<close> (every call of the source passes a
  literal): the occurrences of \<open>old\<close> are replaced from the left, without overlap.
\<close>

function replace :: "string \<Rightarrow> string \<Rightarrow> string \<Rightarrow> string" where
  "replace old new [] = []"
| "replace old new (c # cs) =
     (if old \<noteq> [] \<and> prefix old (c # cs)
      then new @ replace old new (drop (length old) (c # cs))
      else c # replace old new cs)"
  by pat_completeness auto
termination
  by (relation "measure (\<lambda>(old, new, s). length s)") (auto simp: neq_Nil_conv)

text \<open>Line 24: the three entities, the ampersand last.\<close>

definition decode_entities :: "string \<Rightarrow> string" where
  "decode_entities func_name =
     replace ''&amp;'' ''&'' (replace ''&gt;'' ''>'' (replace ''&lt;'' ''<'' func_name))"

text \<open>
  The loop over the matches. \<^verbatim>\<open>int(samples)\<close> cannot fail on a run of digits;
  \<^verbatim>\<open>float(percentage)\<close> raises ValueError on text such as \<^verbatim>\<open>1.2.3\<close>, and nothing
  catches it.
\<close>

fun hotspots_of :: "string list list \<Rightarrow> error + hotspot list" where
  "hotspots_of [] = Inr []"
| "hotspots_of ([func_name, samples_str, percentage_str] # matches) =
     (case float_of percentage_str of
        None \<Rightarrow> Inl ValueError
      | Some pct \<Rightarrow>
         (case hotspots_of matches of
            Inl e \<Rightarrow> Inl e
          | Inr hs \<Rightarrow>
              Inr (\<lparr>h_name = decode_entities func_name, h_samples = int_of samples_str,
                    h_percentage = pct\<rparr> # hs)))"
| "hotspots_of (g # matches) = hotspots_of matches"

text \<open>
  \<^verbatim>\<open>hotspots.sort(key=..., reverse=True)\<close>: a stable sort, largest count first, equal
  counts in extraction order.
\<close>

definition sort_desc :: "('a \<Rightarrow> 'k::linordered_idom) \<Rightarrow> 'a list \<Rightarrow> 'a list" where
  "sort_desc key xs = sort_key (\<lambda>x. - key x) xs"

definition extract_hotspots :: "string \<Rightarrow> error + hotspot list" where
  "extract_hotspots content =
     (case hotspots_of (findall hotspot_pattern content) of
        Inl e \<Rightarrow> Inl e
      | Inr hotspots \<Rightarrow> Inr (sort_desc h_samples hotspots))"

section \<open>Reports\<close>

subsection \<open>\<^verbatim>\<open>print_analysis\<close> of analyze\_flamegraph.py, lines 80-87\<close>

text \<open>
  The rows of the breakdown by subsystem: category, percentage and samples, largest
  category first. The total is the sum of the float counts, added from the left; the
  percentage is a float division and a float product, and it is guarded: 0 when the
  total is not positive.
\<close>

definition print_analysis :: "func list \<Rightarrow> (string \<times> rat \<times> rat) list" where
  "print_analysis functions =
    (let categories = categorize_functions functions;
         total_samples = float_sum (map (\<lambda>f. fst (snd f)) functions);
         sorted_cats = sort_desc (\<lambda>c. cat_samples (snd c)) categories
     in map (\<lambda>(category, data).
               (category,
                if total_samples > 0 then fl (fl (cat_samples data / total_samples) * 100)
                else 0,
                cat_samples data)) sorted_cats)"

subsection \<open>\<^verbatim>\<open>main\<close> of scripts/analyze\_flamegraph\_simple.py, lines 68-125\<close>

text \<open>\<^verbatim>\<open>categories.get(key, 0)\<close>.\<close>

definition get0 :: "(string \<times> 'v::zero) list \<Rightarrow> string \<Rightarrow> 'v" where
  "get0 categories key = (case map_of categories key of Some v \<Rightarrow> v | None \<Rightarrow> 0)"

text \<open>
  The loop of lines 108-111: one row (category, percentage, samples) per category. The
  division by the total is unguarded.
\<close>

fun category_rows :: "int \<Rightarrow> (string \<times> int) list \<Rightarrow> error + (string \<times> rat \<times> int) list" where
  "category_rows total_samples [] = Inr []"
| "category_rows total_samples ((cat, n) # rest) =
     (case py_div (of_int n) (of_int total_samples) of
        Inl e \<Rightarrow> Inl e
      | Inr q \<Rightarrow>
         (case category_rows total_samples rest of
            Inl e \<Rightarrow> Inl e
          | Inr rows \<Rightarrow> Inr ((cat, q * 100, n) # rows)))"

text \<open>
  The report: nothing but a notice when there is no hotspot; otherwise the category
  table and the lock-wait percentage of line 120, the first of the key metrics (each of
  them divides by the total in the same way).
\<close>

datatype simple_report =
    No_hotspots_found
  | Analysis "(string \<times> rat \<times> int) list" rat

definition simple_main :: "hotspot list \<Rightarrow> error + simple_report" where
  "simple_main hotspots =
    (if hotspots = [] then Inr No_hotspots_found
     else
       let total = sum_samples hotspots;
           categories = category_totals hotspots;
           sorted_cats = sort_desc snd categories
       in case category_rows total sorted_cats of
            Inl e \<Rightarrow> Inl e
          | Inr rows \<Rightarrow>
             (case py_div (of_int (get0 categories ''Lock Wait'')) (of_int total) of
                Inl e \<Rightarrow> Inl e
              | Inr q \<Rightarrow> Inr (Analysis rows (q * 100))))"

subsection \<open>\<^verbatim>\<open>main\<close> of scripts/extract\_flamegraph\_hotspots.py, lines 95-149\<close>

text \<open>
  \<^verbatim>\<open>functions\<close> is the list of (label, count) that \<^verbatim>\<open>extract_flamegraph_data\<close> returns
  from the XML tree, the counts being floats. Lines 111-113 compute one percentage per
  function and lines 134-137 one per category, both without a guard; lines 145-149 guard
  the same division.
\<close>

fun percent_rows :: "rat \<Rightarrow> (string \<times> rat) list \<Rightarrow> error + (string \<times> rat \<times> rat) list" where
  "percent_rows total_samples [] = Inr []"
| "percent_rows total_samples ((label, n) # rest) =
     (case py_div n total_samples of
        Inl e \<Rightarrow> Inl e
      | Inr q \<Rightarrow>
         (case percent_rows total_samples rest of
            Inl e \<Rightarrow> Inl e
          | Inr rows \<Rightarrow> Inr ((label, q * 100, n) # rows)))"

text \<open>\<^verbatim>\<open>categories[category] += samples\<close> on a \<^verbatim>\<open>defaultdict(int)\<close>, with float counts.\<close>

fun dict_add_rat :: "string \<Rightarrow> rat \<Rightarrow> (string \<times> rat) list \<Rightarrow> (string \<times> rat) list" where
  "dict_add_rat k n [] = [(k, 0 + n)]"
| "dict_add_rat k n ((k', m) # kvs) =
     (if k' = k then (k', m + n) # kvs else (k', m) # dict_add_rat k n kvs)"

datatype hotspot_report =
    Could_not_extract_function_data
  | Hotspots "(string \<times> rat \<times> rat) list" "(string \<times> rat \<times> rat) list" rat

definition hotspots_main :: "(string \<times> rat) list \<Rightarrow> error + hotspot_report" where
  "hotspots_main functions =
    (if functions = [] then Inr Could_not_extract_function_data
     else
       let total_samples = sum_list (map snd functions) in
       case percent_rows total_samples (take 20 functions) of
         Inl e \<Rightarrow> Inl e
       | Inr top_rows \<Rightarrow>
           let categories =
                 foldl (\<lambda>cats f. dict_add_rat (categorize_function (fst f)) (snd f) cats)
                   [] functions;
               sorted_categories = sort_desc snd categories
           in case percent_rows total_samples sorted_categories of
                Inl e \<Rightarrow> Inl e
              | Inr rows \<Rightarrow>
                  Inr (Hotspots top_rows rows
                        (if total_samples > 0
                         then get0 categories ''Lock/Sync'' / total_samples * 100 else 0)))"

section \<open>Operation counters: \<^verbatim>\<open>analyze_log_patterns\<close> of analyze\_profiling.py\<close>

record patterns =
  stat_calls :: int
  lookup_calls :: int
  read_calls :: int
  write_calls :: int
  mkdir_calls :: int
  unlink_calls :: int
  cache_lookups :: int
  cache_hits :: int
  cache_misses :: int

definition no_patterns :: patterns where
  "no_patterns = \<lparr>stat_calls = 0, lookup_calls = 0, read_calls = 0, write_calls = 0,
     mkdir_calls = 0, unlink_calls = 0, cache_lookups = 0, cache_hits = 0, cache_misses = 0\<rparr>"

text \<open>
  The body of the loop, lines 92-107: eight independent tests. The first looks for
  \<^verbatim>\<open>getattr\<close> in the line as it is and for \<^verbatim>\<open>stat\<close> in its lower-case form; no test
  touches \<^verbatim>\<open>cache_lookups\<close>.
\<close>

definition scan_line :: "patterns \<Rightarrow> string \<Rightarrow> patterns" where
  "scan_line p0 line =
    (let p1 = (if isin ''getattr'' line \<or> isin ''stat'' (lower line)
               then p0\<lparr>stat_calls := stat_calls p0 + 1\<rparr> else p0);
         p2 = (if isin ''lookup'' (lower line)
               then p1\<lparr>lookup_calls := lookup_calls p1 + 1\<rparr> else p1);
         p3 = (if isin ''read'' (lower line)
               then p2\<lparr>read_calls := read_calls p2 + 1\<rparr> else p2);
         p4 = (if isin ''write'' (lower line)
               then p3\<lparr>write_calls := write_calls p3 + 1\<rparr> else p3);
         p5 = (if isin ''mkdir'' (lower line)
               then p4\<lparr>mkdir_calls := mkdir_calls p4 + 1\<rparr> else p4);
         p6 = (if isin ''unlink'' (lower line)
               then p5\<lparr>unlink_calls := unlink_calls p5 + 1\<rparr> else p5);
         p7 = (if isin ''cache hit'' (lower line)
               then p6\<lparr>cache_hits := cache_hits p6 + 1\<rparr> else p6)
     in if isin ''cache miss'' (lower line)
        then p7\<lparr>cache_misses := cache_misses p7 + 1\<rparr> else p7)"

text \<open>The scan of the lines read from the log (none when the file cannot be opened).\<close>

definition analyze_log_patterns :: "string list \<Rightarrow> patterns" where
  "analyze_log_patterns log_lines = foldl scan_line no_patterns log_lines"

section \<open>Live sampler: scripts/profile\_concurrent.py\<close>

subsection \<open>The payload\<close>

text \<open>
  What \<^verbatim>\<open>json.loads\<close> returns: a float is an exact rational here, an object is the dict
  as an association list (looked up with \<^const>\<open>map_of\<close>). The payload of the statistics
  feed is the dict of an object: the line parsed starts with a brace.
\<close>

datatype json =
    JNull | JBool bool | JInt int | JFloat rat | JStr string
  | JArr "json list" | JObj "(string \<times> json) list"

text \<open>\<^verbatim>\<open>d.get(key, default)\<close>.\<close>

definition dict_get :: "(string \<times> json) list \<Rightarrow> string \<Rightarrow> json \<Rightarrow> json" where
  "dict_get d key dflt = (case map_of d key of Some v \<Rightarrow> v | None \<Rightarrow> dflt)"

subsection \<open>\<^verbatim>\<open>StatsSnapshot\<close> and \<^verbatim>\<open>extract_snapshot\<close>\<close>

text \<open>
  The dataclass does not check its fields: each holds whatever value the payload had
  under the key.
\<close>

record StatsSnapshot =
  timestamp :: rat
  total_reads :: json
  total_writes :: json
  total_metadata_ops :: json
  bytes_read :: json
  bytes_written :: json
  read_latency_avg_ms :: json
  write_latency_avg_ms :: json
  metadata_latency_avg_ms :: json
  cache_hits :: json
  cache_misses :: json
  cache_entries :: json
  errors :: json

text \<open>
  \<open>now\<close> is the value of \<^verbatim>\<open>time.time()\<close>. \<^verbatim>\<open>stats.get('cache', {})\<close> is the value under
  \<^verbatim>\<open>'cache'\<close> when the key is there; only a dict has a \<^verbatim>\<open>get\<close>, so on any other value
  the call raises AttributeError, which the function catches to return \<^verbatim>\<open>None\<close>.
\<close>

definition extract_snapshot :: "rat \<Rightarrow> (string \<times> json) list \<Rightarrow> StatsSnapshot option" where
  "extract_snapshot now stats =
    (case dict_get stats ''cache'' (JObj []) of
       JObj cache \<Rightarrow>
         Some \<lparr>timestamp = now,
               total_reads = dict_get stats ''total_reads'' (JInt 0),
               total_writes = dict_get stats ''total_writes'' (JInt 0),
               total_metadata_ops = dict_get stats ''total_metadata_ops'' (JInt 0),
               bytes_read = dict_get stats ''bytes_read'' (JInt 0),
               bytes_written = dict_get stats ''bytes_written'' (JInt 0),
               read_latency_avg_ms = dict_get stats ''read_latency_avg_ms'' (JFloat 0),
               write_latency_avg_ms = dict_get stats ''write_latency_avg_ms'' (JFloat 0),
               metadata_latency_avg_ms = dict_get stats ''metadata_latency_avg_ms'' (JFloat 0),
               cache_hits = dict_get cache ''hits'' (JInt 0),
               cache_misses = dict_get cache ''misses'' (JInt 0),
               cache_entries = dict_get cache ''entries'' (JInt 0),
               errors = dict_get stats ''total_errors'' (JInt 0)\<rparr>
     | _ \<Rightarrow> None)"

subsection \<open>Arithmetic and formatting on payload values\<close>

text \<open>The number a value is in arithmetic (a bool counts as 0 or 1), if it is one.\<close>

fun num :: "json \<Rightarrow> rat option" where
  "num (JInt i) = Some (of_int i)"
| "num (JFloat r) = Some r"
| "num (JBool b) = Some (if b then 1 else 0)"
| "num v = None"

text \<open>\<^verbatim>\<open>a - b\<close>: TypeError unless both are numbers.\<close>

definition py_sub :: "json \<Rightarrow> json \<Rightarrow> error + rat" where
  "py_sub a b =
    (case num a of
       None \<Rightarrow> Inl TypeError
     | Some x \<Rightarrow> (case num b of None \<Rightarrow> Inl TypeError | Some y \<Rightarrow> Inr (x - y)))"

text \<open>\<^verbatim>\<open>(current.counter - prev_snapshot.counter) / dt\<close>.\<close>

definition rate :: "json \<Rightarrow> json \<Rightarrow> rat \<Rightarrow> error + rat" where
  "rate cur prev dt = (case py_sub cur prev of Inl e \<Rightarrow> Inl e | Inr d \<Rightarrow> py_div d dt)"

text \<open>
  The property \<^verbatim>\<open>cache_hit_rate\<close>. With a value that is not a number either the sum or
  the comparison of the sum with 0 raises TypeError.
\<close>

definition cache_hit_rate :: "StatsSnapshot \<Rightarrow> error + rat" where
  "cache_hit_rate s =
    (case num (cache_hits s) of
       None \<Rightarrow> Inl TypeError
     | Some h \<Rightarrow>
        (case num (cache_misses s) of
           None \<Rightarrow> Inl TypeError
         | Some m \<Rightarrow> Inr (if h + m > 0 then h / (h + m) * 100 else 0)))"

text \<open>
  The format \<^verbatim>\<open>:>8.2f\<close> takes a number (ValueError on a string, TypeError on anything
  else); the format \<^verbatim>\<open>:>8\<close> takes a number or a string.
\<close>

fun format_f :: "json \<Rightarrow> error + rat" where
  "format_f (JStr s) = Inl ValueError"
| "format_f v = (case num v of Some x \<Rightarrow> Inr x | None \<Rightarrow> Inl TypeError)"

fun format_s :: "json \<Rightarrow> error + json" where
  "format_s JNull = Inl TypeError"
| "format_s (JArr xs) = Inl TypeError"
| "format_s (JObj kvs) = Inl TypeError"
| "format_s v = Inr v"

text \<open>\<^verbatim>\<open>int(x)\<close> on a float: towards zero.\<close>

definition py_int :: "rat \<Rightarrow> int" where
  "py_int x = (if x \<ge> 0 then \<lfloor>x\<rfloor> else \<lceil>x\<rceil>)"

subsection \<open>The sampling loop of \<^verbatim>\<open>main\<close>\<close>

text \<open>One printed row: the values handed to the format string, in its order.\<close>

record row =
  elapsed :: int
  reads_per_sec :: rat
  writes_per_sec :: rat
  meta_per_sec :: rat
  bytes_per_sec :: rat
  read_latency :: rat
  write_latency :: rat
  metadata_latency :: rat
  hit_rate :: rat
  entries :: json
  error_count :: json

text \<open>Sequencing of steps that may raise.\<close>

definition bind :: "error + 'a \<Rightarrow> ('a \<Rightarrow> error + 'b) \<Rightarrow> error + 'b" where
  "bind m f = (case m of Inl e \<Rightarrow> Inl e | Inr x \<Rightarrow> f x)"

text \<open>
  Lines 138-151, run when there is a previous snapshot: \<^verbatim>\<open>dt\<close>, the four rates (each
  divides by \<^verbatim>\<open>dt\<close>, with no test on it), and the row.
\<close>

definition print_row :: "rat \<Rightarrow> StatsSnapshot \<Rightarrow> StatsSnapshot \<Rightarrow> error + row" where
  "print_row start_time prev_snapshot current =
    (let dt = timestamp current - timestamp prev_snapshot in
     bind (rate (total_reads current) (total_reads prev_snapshot) dt) (\<lambda>reads.
     bind (rate (total_writes current) (total_writes prev_snapshot) dt) (\<lambda>writes.
     bind (rate (total_metadata_ops current) (total_metadata_ops prev_snapshot) dt) (\<lambda>meta.
     bind (rate (bytes_read current) (bytes_read prev_snapshot) dt) (\<lambda>bytes.
     bind (format_f (read_latency_avg_ms current)) (\<lambda>rd.
     bind (format_f (write_latency_avg_ms current)) (\<lambda>wr.
     bind (format_f (metadata_latency_avg_ms current)) (\<lambda>md.
     bind (cache_hit_rate current) (\<lambda>hr.
     bind (format_s (cache_entries current)) (\<lambda>en.
     bind (format_s (errors current)) (\<lambda>er.
       Inr \<lparr>elapsed = py_int (timestamp current - start_time),
            reads_per_sec = reads, writes_per_sec = writes, meta_per_sec = meta,
            bytes_per_sec = bytes, read_latency = rd, write_latency = wr,
            metadata_latency = md, hit_rate = hr, entries = en,
            error_count = er\<rparr>)))))))))))"

text \<open>
  The loop, over the polls it makes before the duration is over: each is the result of
  \<^verbatim>\<open>get_mount_stats\<close> (\<open>None\<close> when there is no data) and the time at which the snapshot
  is taken. The result is the rows printed and the exception that ended the loop, if
  one was raised. Between two polls the loop sleeps.
\<close>

fun main_loop ::
  "rat \<Rightarrow> StatsSnapshot option \<Rightarrow> ((string \<times> json) list option \<times> rat) list
   \<Rightarrow> row list \<times> error option" where
  "main_loop start_time prev_snapshot [] = ([], None)"
| "main_loop start_time prev_snapshot ((None, now) # polls) =
     main_loop start_time prev_snapshot polls"
| "main_loop start_time prev_snapshot ((Some stats, now) # polls) =
     (case extract_snapshot now stats of
        None \<Rightarrow> main_loop start_time prev_snapshot polls
      | Some current \<Rightarrow>
         (case prev_snapshot of
            None \<Rightarrow> main_loop start_time (Some current) polls
          | Some prev \<Rightarrow>
             (case print_row start_time prev current of
                Inl e \<Rightarrow> ([], Some e)
              | Inr r \<Rightarrow>
                  (r # fst (main_loop start_time (Some current) polls),
                   snd (main_loop start_time (Some current) polls)))))"

section \<open>Predicates and sample inputs used in the statements\<close>

text \<open>
  Every function filed under a category belongs there: its label has that category in
  the chain of \<^verbatim>\<open>categorize_functions\<close>.
\<close>

definition well_filed :: "(string \<times> cat_data) list \<Rightarrow> bool" where
  "well_filed cats =
     list_all (\<lambda>(k, d). list_all (\<lambda>f. category_of (fst f) = k) (cat_functions d)) cats"

text \<open>A whole count: a float that is a natural number.\<close>

definition whole :: "rat \<Rightarrow> bool" where
  "whole x = (0 \<le> x \<and> x \<in> \<int>)"

text \<open>The sample counts of a list of functions, and the totals of the categories.\<close>

definition counts :: "func list \<Rightarrow> rat list" where
  "counts functions = map (\<lambda>f. fst (snd f)) functions"

definition totals :: "(string \<times> cat_data) list \<Rightarrow> rat list" where
  "totals categories = map (\<lambda>c. cat_samples (snd c)) categories"

definition whole_counts :: "func list \<Rightarrow> bool" where
  "whole_counts functions = list_all whole (counts functions)"

text \<open>An artifact with three annotations whose counts are fractions.\<close>

definition fractional_artifact :: string where
  "fractional_artifact =
     ''<title>fuse_read (0.1 samples, 12.50%)</title>''
     @ ''<title>mutex_lock (0.1 samples, 12.50%)</title>''
     @ ''<title>mutex_unlock (0.6 samples, 75.00%)</title>''"

text \<open>
  A timing line as the benchmark tool prints it, with the plus-minus sign (code point
  177); the letter s stands where the tool prints a sigma, which is beyond code point
  255.
\<close>

definition timing_line :: "string \<Rightarrow> string \<Rightarrow> string" where
  "timing_line mean_text sigma_text =
     ''  Time (mean '' @ [CHR 0xB1] @ '' s):     '' @ mean_text @ '' '' @ [CHR 0xB1] @ ''  ''
     @ sigma_text"

text \<open>
  A benchmark directory: no file for the first workload, a baseline of 0.0 ms for the
  second, and two ordinary reports for the third.
\<close>

definition bench_files :: "string \<Rightarrow> string option" where
  "bench_files =
    [''benchmarks/baseline-media.txt'' \<mapsto> timing_line ''0.0 ms'' ''0.1 ms'',
     ''benchmarks/phase1-media.txt'' \<mapsto> timing_line ''0.2 ms'' ''0.1 ms'',
     ''benchmarks/baseline-backup.txt'' \<mapsto> timing_line ''5.09 s'' ''11.71 ms'',
     ''benchmarks/phase1-backup.txt'' \<mapsto> timing_line ''4.50 s'' ''10.00 ms'']"

text \<open>
  The value of the decimal numeral with integer digits \<open>ip\<close> and fraction digits \<open>fp\<close>,
  and a value with unit \<^verbatim>\<open>s\<close> or \<^verbatim>\<open>ms\<close> in milliseconds.
\<close>

definition decimal :: "string \<Rightarrow> string \<Rightarrow> rat" where
  "decimal ip fp = of_nat (digits_val ip) + of_nat (digits_val fp) / 10 ^ length fp"

definition to_ms :: "string \<Rightarrow> rat \<Rightarrow> rat" where
  "to_ms unit v = (if unit = ''s'' then v * 1000 else v)"

text \<open>
  A report of the benchmark tool with its colour escape sequences, holding the timing
  line \<^verbatim>\<open>5.09 s\<close> plus-minus \<^verbatim>\<open>11.71 ms\<close>.
\<close>

definition hyperfine_report :: string where
  "hyperfine_report =
     ''Benchmark 1: oxbench'' @ [CHR 0x0A]
     @ ''  Time ('' @ [CHR 0x1B] @ ''[1;32mmean'' @ [CHR 0x1B] @ ''[0m '' @ [CHR 0xB1] @ '' s):     ''
     @ [CHR 0x1B] @ ''[1;32m5.09 s'' @ [CHR 0x1B] @ ''[0m '' @ [CHR 0xB1] @ ''  ''
     @ [CHR 0x1B] @ ''[32m11.71 ms'' @ [CHR 0x1B] @ ''[0m    [User: 1.20 s, System: 0.30 s]''
     @ [CHR 0x0A]"

text \<open>
  The same directory with a baseline of 0.3 ms for the second workload.
\<close>

definition bench_files_ok :: "string \<Rightarrow> string option" where
  "bench_files_ok =
    [''benchmarks/baseline-media.txt'' \<mapsto> timing_line ''0.3 ms'' ''0.1 ms'',
     ''benchmarks/phase1-media.txt'' \<mapsto> timing_line ''0.2 ms'' ''0.1 ms'',
     ''benchmarks/baseline-backup.txt'' \<mapsto> timing_line ''5.09 s'' ''11.71 ms'',
     ''benchmarks/phase1-backup.txt'' \<mapsto> timing_line ''4.50 s'' ''10.00 ms'']"

text \<open>
  The comparator's contract in the specification's words, for one workload and its two
  extractions: the comparison with \<open>delta\<close> and \<open>deltaPct\<close> when both succeeded, the notice
  that the metrics could not be extracted otherwise.
\<close>

fun expected_report :: "string \<times> (rat \<times> rat) option \<times> (rat \<times> rat) option \<Rightarrow> report" where
  "expected_report (workload, Some (baseline_mean, baseline_sigma), Some (phase1_mean, phase1_sigma)) =
     Compared workload baseline_mean baseline_sigma phase1_mean phase1_sigma
       (baseline_mean - phase1_mean) ((baseline_mean - phase1_mean) / baseline_mean * 100)"
| "expected_report (workload, baseline, phase1) = Could_not_extract workload baseline phase1"

text \<open>A workload whose two extractions succeeded has a baseline mean other than 0.\<close>

fun nonzero_baseline :: "string \<times> (rat \<times> rat) option \<times> (rat \<times> rat) option \<Rightarrow> bool" where
  "nonzero_baseline (workload, Some (baseline_mean, baseline_sigma), Some phase1) =
     (baseline_mean \<noteq> 0)"
| "nonzero_baseline (workload, baseline, phase1) = True"

text \<open>The extractions of a run: for each workload, what its two files yield.\<close>

definition extractions ::
  "(string \<Rightarrow> string option) \<Rightarrow> (string \<times> (rat \<times> rat) option \<times> (rat \<times> rat) option) list" where
  "extractions files =
     map (\<lambda>workload.
        (workload,
         extract_metrics (files (''benchmarks/baseline-'' @ workload @ ''.txt'')),
         extract_metrics (files (''benchmarks/phase1-'' @ workload @ ''.txt'')))) workloads"

section \<open>Evaluation rules\<close>

lemmas ev_str = lower_def lower_char_def char_of_def bit_Suc_0_iff

lemmas ev_re = lits_def one_or_more_def lazy_one_or_more_def optional_def digit_def
  lowercase_def digit_or_dot_def whitespace_def

lemmas ev_num = float_of_def int_of_def digits_val_def is_digit_def

text \<open>Floor and ceiling of a quotient of numerals, and the evaluation of \<open>fl\<close>.\<close>

lemma floor_rat_numeral [simp]:
  "\<lfloor>(numeral a :: rat) / numeral b\<rfloor> = numeral a div numeral b"
  using floor_divide_of_int_eq [of "numeral a" "numeral b", where ?'a = rat] by simp

lemma ceiling_rat_numeral [simp]:
  "\<lceil>(numeral a :: rat) / numeral b\<rceil> = - (- numeral a div numeral b)"
  using ceiling_divide_eq_div [of "numeral a" "numeral b", where ?'a = rat] by simp

lemmas ev_fl = fl_def fl_add_def float_sum_def ilog2_def round_half_even_def Let_def
  compute_bitlen

section \<open>The categorizers are first-match rule lists\<close>

lemma first_match_categorize: "categorize label = first_match categorize_rules ''Other'' label"
  by (simp add: categorize_def categorize_rules_def kw_def Let_def)

lemma first_match_categorize_function:
  "categorize_function label = first_match categorize_function_rules ''Other'' label"
  by (simp add: categorize_function_def categorize_function_rules_def kw_def any_in_def Let_def)

lemma first_match_first:
  "i < length rs \<Longrightarrow> fst (rs ! i) label \<Longrightarrow> (\<forall>j<i. \<not> fst (rs ! j) label)
   \<Longrightarrow> first_match rs d label = snd (rs ! i)"
proof (induction rs arbitrary: i)
  case Nil
  then show ?case by simp
next
  case (Cons r rs)
  show ?case
  proof (cases i)
    case 0
    with Cons.prems show ?thesis by simp
  next
    case (Suc k)
    from Cons.prems Suc have r: "\<not> fst r label" by auto
    from Cons.prems Suc have "\<forall>j<k. \<not> fst (rs ! j) label" by auto
    with Cons.IH [of k] Cons.prems Suc have "first_match rs d label = snd (rs ! k)" by simp
    with r Suc show ?thesis by simp
  qed
qed

lemma first_match_none: "(\<forall>r\<in>set rs. \<not> fst r label) \<Longrightarrow> first_match rs d label = d"
  by (induction rs) auto

text \<open>
  Claim C3. For every label each categorizer returns one category: that of the first
  rule, in the fixed order of its taxonomy, whose keyword predicate the label
  satisfies, and the catch-all \<^verbatim>\<open>Other\<close> when no rule matches. The result is a function
  of the label alone, so a label that satisfies two rules always gets the category of
  the earlier one. Stated for \<^verbatim>\<open>categorize\<close> and for \<^verbatim>\<open>categorize_function\<close>.
\<close>

theorem categorizer_first_match:
  "categorize label = first_match categorize_rules ''Other'' label
   \<and> categorize_function label = first_match categorize_function_rules ''Other'' label
   \<and> (i < length categorize_rules \<longrightarrow> fst (categorize_rules ! i) label
        \<longrightarrow> (\<forall>j<i. \<not> fst (categorize_rules ! j) label)
        \<longrightarrow> categorize label = snd (categorize_rules ! i))
   \<and> (k < length categorize_function_rules \<longrightarrow> fst (categorize_function_rules ! k) label
        \<longrightarrow> (\<forall>j<k. \<not> fst (categorize_function_rules ! j) label)
        \<longrightarrow> categorize_function label = snd (categorize_function_rules ! k))
   \<and> ((\<forall>r\<in>set categorize_rules. \<not> fst r label) \<longrightarrow> categorize label = ''Other'')
   \<and> ((\<forall>r\<in>set categorize_function_rules. \<not> fst r label)
        \<longrightarrow> categorize_function label = ''Other'')"
  using first_match_first [of i categorize_rules label "''Other''"]
    first_match_first [of k categorize_function_rules label "''Other''"]
    first_match_none [of categorize_rules label "''Other''"]
    first_match_none [of categorize_function_rules label "''Other''"]
  unfolding first_match_categorize first_match_categorize_function
  by blast

text \<open>
  The label \<^verbatim>\<open>cache_Lock\<close> satisfies the lock rule and the cache rule of both
  categorizers; the lock rule comes first in both. The label \<^verbatim>\<open>main\<close> satisfies none.
\<close>

theorem categorizer_first_match_witness:
  "fst (categorize_rules ! 1) ''cache_Lock'' \<and> fst (categorize_rules ! 2) ''cache_Lock''
   \<and> categorize ''cache_Lock'' = ''Synchronization''
   \<and> fst (categorize_function_rules ! 0) ''cache_Lock''
   \<and> fst (categorize_function_rules ! 1) ''cache_Lock''
   \<and> categorize_function ''cache_Lock'' = ''Lock/Sync''
   \<and> categorize ''main'' = ''Other'' \<and> categorize_function ''main'' = ''Other''"
proof -
  have a: "(1::nat) < length categorize_rules" by (simp add: categorize_rules_def)
  have b: "fst (categorize_rules ! 1) ''cache_Lock''"
    by (simp add: categorize_rules_def kw_def ev_str)
  have b2: "fst (categorize_rules ! 2) ''cache_Lock''"
    by (simp add: categorize_rules_def kw_def ev_str)
  have c: "\<forall>j<1. \<not> fst (categorize_rules ! j) ''cache_Lock''"
    by (simp add: categorize_rules_def kw_def ev_str)
  have d: "(0::nat) < length categorize_function_rules"
    by (simp add: categorize_function_rules_def)
  have e: "fst (categorize_function_rules ! 0) ''cache_Lock''"
    by (simp add: categorize_function_rules_def kw_def ev_str)
  have e2: "fst (categorize_function_rules ! 1) ''cache_Lock''"
    by (simp add: categorize_function_rules_def kw_def ev_str)
  have f: "\<forall>r\<in>set categorize_rules. \<not> fst r ''main''"
    by (simp add: categorize_rules_def kw_def ev_str)
  have g: "\<forall>r\<in>set categorize_function_rules. \<not> fst r ''main''"
    by (simp add: categorize_function_rules_def kw_def ev_str)
  have s1: "snd (categorize_rules ! 1) = ''Synchronization''"
    by (simp add: categorize_rules_def)
  have s2: "snd (categorize_function_rules ! 0) = ''Lock/Sync''"
    by (simp add: categorize_function_rules_def)
  have h: "\<forall>j<0. \<not> fst (categorize_function_rules ! j) ''cache_Lock''" by simp
  from categorizer_first_match [of "''cache_Lock''" 1 0] a b c
  have "categorize ''cache_Lock'' = snd (categorize_rules ! 1)" by blast
  moreover from categorizer_first_match [of "''cache_Lock''" 1 0] d e h
  have "categorize_function ''cache_Lock'' = snd (categorize_function_rules ! 0)" by blast
  ultimately have "categorize ''cache_Lock'' = ''Synchronization''
        \<and> categorize_function ''cache_Lock'' = ''Lock/Sync''"
    unfolding s1 s2 by blast
  moreover from categorizer_first_match [of "''main''" 0 0] f g
  have "categorize ''main'' = ''Other'' \<and> categorize_function ''main'' = ''Other''" by blast
  ultimately show ?thesis using b b2 e e2 by blast
qed

section \<open>Aggregation is a partition of the samples\<close>

lemma dict_add_sum: "sum_list (map snd (dict_add k n kvs)) = sum_list (map snd kvs) + n"
  by (induction kvs) auto

lemma dict_add_keys: "set (map fst (dict_add k n kvs)) = insert k (set (map fst kvs))"
proof (induction kvs)
  case Nil
  then show ?case by simp
next
  case (Cons a kvs)
  obtain k' m where a: "a = (k', m)" by (cases a)
  show ?case
  proof (cases "k' = k")
    case True
    with a show ?thesis by auto
  next
    case False
    with a Cons.IH show ?thesis by auto
  qed
qed

lemma dict_add_distinct: "distinct (map fst kvs) \<Longrightarrow> distinct (map fst (dict_add k n kvs))"
proof (induction kvs)
  case Nil
  then show ?case by simp
next
  case (Cons a kvs)
  obtain k' m where a: "a = (k', m)" by (cases a)
  show ?case
  proof (cases "k' = k")
    case True
    with Cons.prems a show ?thesis by simp
  next
    case False
    from Cons have "distinct (map fst (dict_add k n kvs))" by simp
    moreover from Cons.prems a False have "k' \<notin> set (map fst (dict_add k n kvs))"
      unfolding dict_add_keys by auto
    ultimately show ?thesis using a False by simp
  qed
qed

lemma totals_fold_sum:
  "sum_list (map snd (foldl (\<lambda>categories h.
       dict_add (categorize (h_name h)) (h_samples h) categories) acc hs))
   = sum_list (map snd acc) + sum_list (map h_samples hs)"
  by (induction hs arbitrary: acc) (simp_all add: dict_add_sum)

lemma totals_fold_distinct:
  "distinct (map fst acc) \<Longrightarrow>
   distinct (map fst (foldl (\<lambda>categories h.
       dict_add (categorize (h_name h)) (h_samples h) categories) acc hs))"
  by (induction hs arbitrary: acc) (simp_all add: dict_add_distinct)

lemma cat_add_keys: "set (map fst (cat_add k f kvs)) = insert k (set (map fst kvs))"
proof (induction kvs)
  case Nil
  then show ?case by simp
next
  case (Cons a kvs)
  obtain k' d where a: "a = (k', d)" by (cases a)
  show ?case
  proof (cases "k' = k")
    case True
    with a show ?thesis by auto
  next
    case False
    with a Cons.IH show ?thesis by auto
  qed
qed

lemma cat_add_distinct: "distinct (map fst kvs) \<Longrightarrow> distinct (map fst (cat_add k f kvs))"
proof (induction kvs)
  case Nil
  then show ?case by simp
next
  case (Cons a kvs)
  obtain k' d where a: "a = (k', d)" by (cases a)
  show ?case
  proof (cases "k' = k")
    case True
    with Cons.prems a show ?thesis by simp
  next
    case False
    from Cons have "distinct (map fst (cat_add k f kvs))" by simp
    moreover from Cons.prems a False have "k' \<notin> set (map fst (cat_add k f kvs))"
      unfolding cat_add_keys by auto
    ultimately show ?thesis using a False by simp
  qed
qed

lemma cat_add_mset:
  "mset (concat (map (cat_functions \<circ> snd) (cat_add k f kvs)))
   = mset (concat (map (cat_functions \<circ> snd) kvs)) + {#f#}"
  by (induction kvs) auto

lemma cat_add_filed:
  "well_filed kvs \<Longrightarrow> well_filed (cat_add (category_of (fst f)) f kvs)"
  by (induction kvs) (auto simp: well_filed_def)

lemma cf_fold_distinct:
  "distinct (map fst acc) \<Longrightarrow>
   distinct (map fst (foldl (\<lambda>categories f.
       cat_add (category_of (fst f)) f categories) acc fs))"
  by (induction fs arbitrary: acc) (simp_all add: cat_add_distinct)

lemma cf_fold_mset:
  "mset (concat (map (cat_functions \<circ> snd) (foldl (\<lambda>categories f.
       cat_add (category_of (fst f)) f categories) acc fs)))
   = mset (concat (map (cat_functions \<circ> snd) acc)) + mset fs"
  by (induction fs arbitrary: acc) (simp_all add: cat_add_mset)

lemma cf_fold_filed:
  "well_filed acc \<Longrightarrow>
   well_filed (foldl (\<lambda>categories f. cat_add (category_of (fst f)) f categories) acc fs)"
  by (induction fs arbitrary: acc) (simp_all add: cat_add_filed)

subsection \<open>Float totals\<close>

text \<open>
  A natural number below \<open>2 ^ 53\<close> is a double, so float additions whose results stay
  below that bound are exact.
\<close>

lemma round_half_even_int: "round_half_even (of_int m) = m"
  by (simp add: round_half_even_def)

lemma fl_whole:
  assumes "whole x" "x < 2 ^ 53"
  shows "fl x = x"
proof (cases "x = 0")
  case True
  then show ?thesis by (simp add: fl_def)
next
  case False
  from assms(1) have "x \<in> \<int>" "0 \<le> x" by (simp_all add: whole_def)
  then obtain k where xk: "x = of_int k" by (auto elim: Ints_cases)
  with False \<open>0 \<le> x\<close> have kpos: "0 < k" by simp
  from xk assms(2) have "k < 2 ^ 53"
    by (metis of_int_less_iff of_int_numeral of_int_power)
  then have bl: "bitlen k \<le> 53" by (simp add: bitlen_le_iff_power)
  from kpos have ge1: "\<bar>x\<bar> \<ge> 1" using xk by simp
  have il: "ilog2 x = bitlen k - 1" using ge1 kpos xk by (simp add: ilog2_def)
  define e where "e = max (ilog2 x - 52) (- 1074)"
  from il bl have e0: "e \<le> 0" by (simp add: e_def)
  define n where "n = nat (- e)"
  from e0 have en: "e = - int n" by (simp add: n_def)
  have p: "(2::rat) powi e = 1 / 2 ^ n" by (simp add: en power_int_minus_divide)
  have "x / 2 powi e = of_int (k * 2 ^ n)" by (simp add: p xk)
  then have r: "round_half_even (x / 2 powi e) = k * 2 ^ n"
    by (simp only: round_half_even_int)
  have "fl x = of_int (round_half_even (x / 2 powi e)) * 2 powi e"
    using False by (simp add: fl_def e_def Let_def)
  also have "\<dots> = of_int (k * 2 ^ n) * 2 powi e" by (simp only: r)
  also have "\<dots> = x" by (simp add: p xk)
  finally show ?thesis .
qed

lemma whole_add: "whole a \<Longrightarrow> whole b \<Longrightarrow> whole (a + b)"
  by (simp add: whole_def)

lemma fl_add_whole: "whole a \<Longrightarrow> whole b \<Longrightarrow> a + b < 2 ^ 53 \<Longrightarrow> fl_add a b = a + b"
  by (simp add: fl_add_def fl_whole whole_add)

lemma whole_sum: "list_all whole xs \<Longrightarrow> whole (sum_list xs)"
  by (induction xs) (simp_all add: whole_def)

lemma whole_sum_nonneg: "list_all whole xs \<Longrightarrow> 0 \<le> sum_list xs"
  using whole_sum [of xs] by (simp add: whole_def)

lemma float_sum_fold:
  "whole a \<Longrightarrow> list_all whole xs \<Longrightarrow> a + sum_list xs < 2 ^ 53
   \<Longrightarrow> foldl fl_add a xs = a + sum_list xs"
proof (induction xs arbitrary: a)
  case Nil
  then show ?case by simp
next
  case (Cons x xs)
  from Cons.prems have wx: "whole x" and wxs: "list_all whole xs" by simp_all
  from whole_sum_nonneg [OF wxs] Cons.prems(3) have b: "a + x < 2 ^ 53" by simp
  from fl_add_whole [OF Cons.prems(1) wx b] have e: "fl_add a x = a + x" .
  from Cons.IH [of "a + x"] whole_add [OF Cons.prems(1) wx] wxs Cons.prems(3)
  have "foldl fl_add (a + x) xs = a + x + sum_list xs" by (simp add: add.assoc)
  with e show ?case by (simp add: add.assoc)
qed

lemma float_sum_whole:
  "list_all whole xs \<Longrightarrow> sum_list xs < 2 ^ 53 \<Longrightarrow> float_sum xs = sum_list xs"
  using float_sum_fold [of 0 xs] by (simp add: float_sum_def whole_def)

lemma counts_simps [simp]: "counts [] = []" "counts (f # fs) = fst (snd f) # counts fs"
  by (simp_all add: counts_def)

lemma totals_simps [simp]:
  "totals [] = []" "totals ((k, d) # kvs) = cat_samples d # totals kvs"
  by (simp_all add: totals_def)

lemma cat_add_whole:
  assumes "list_all whole (totals kvs)" and "whole (fst (snd f))"
    and "sum_list (totals kvs) + fst (snd f) < 2 ^ 53"
  shows "sum_list (totals (cat_add k f kvs)) = sum_list (totals kvs) + fst (snd f)
         \<and> list_all whole (totals (cat_add k f kvs))"
  using assms
proof (induction kvs)
  case Nil
  have z: "whole 0" by (simp add: whole_def)
  from Nil have "fl_add 0 (fst (snd f)) = 0 + fst (snd f)"
    by (intro fl_add_whole z) simp_all
  with Nil show ?case by simp
next
  case (Cons a kvs)
  obtain k' d where a: "a = (k', d)" by (cases a)
  from Cons.prems a have wd: "whole (cat_samples d)"
    and wr: "list_all whole (totals kvs)" by simp_all
  note nn = whole_sum_nonneg [OF wr]
  from wd have dn: "0 \<le> cat_samples d" by (simp add: whole_def)
  show ?case
  proof (cases "k' = k")
    case True
    from Cons.prems(3) a nn have "cat_samples d + fst (snd f) < 2 ^ 53" by simp
    from fl_add_whole [OF wd Cons.prems(2) this]
    have e: "fl_add (cat_samples d) (fst (snd f)) = cat_samples d + fst (snd f)" .
    from whole_add [OF wd Cons.prems(2)] e wr a True show ?thesis by simp
  next
    case False
    from Cons.prems(3) a dn
    have "sum_list (totals kvs) + fst (snd f) < 2 ^ 53" by simp
    from Cons.IH [OF wr Cons.prems(2) this] a False wd show ?thesis by simp
  qed
qed

lemma cf_fold_whole:
  assumes "list_all whole (totals acc)" and "whole_counts fs"
    and "sum_list (totals acc) + sum_list (counts fs) < 2 ^ 53"
  shows "sum_list (totals (foldl (\<lambda>categories f.
             cat_add (category_of (fst f)) f categories) acc fs))
           = sum_list (totals acc) + sum_list (counts fs)
         \<and> list_all whole (totals (foldl (\<lambda>categories f.
             cat_add (category_of (fst f)) f categories) acc fs))"
  using assms
proof (induction fs arbitrary: acc)
  case Nil
  then show ?case by simp
next
  case (Cons f fs)
  from Cons.prems(2) have wf: "whole (fst (snd f))" and wfs: "whole_counts fs"
    by (simp_all add: whole_counts_def)
  from wfs have "list_all whole (counts fs)" by (simp add: whole_counts_def)
  note nn = whole_sum_nonneg [OF this]
  from Cons.prems(3) nn
  have b: "sum_list (totals acc) + fst (snd f) < 2 ^ 53" by simp
  note st = cat_add_whole [OF Cons.prems(1) wf b, of "category_of (fst f)"]
  from st Cons.prems(3)
  have "sum_list (totals (cat_add (category_of (fst f)) f acc)) + sum_list (counts fs) < 2 ^ 53"
    by (simp add: add.assoc)
  from Cons.IH [OF conjunct2 [OF st] wfs this] st show ?case by (simp add: add.assoc)
qed

lemma whole_totals:
  assumes "whole_counts functions" "sum_list (counts functions) < 2 ^ 53"
  shows "sum_list (totals (categorize_functions functions)) = sum_list (counts functions)
       \<and> float_sum (totals (categorize_functions functions)) = sum_list (counts functions)
       \<and> float_sum (counts functions) = sum_list (counts functions)"
proof -
  have e: "list_all whole (totals [])" by simp
  from assms(2) have b: "sum_list (totals []) + sum_list (counts functions) < 2 ^ 53" by simp
  from cf_fold_whole [OF e assms(1) b]
  have s: "sum_list (totals (categorize_functions functions)) = sum_list (counts functions)"
    and w: "list_all whole (totals (categorize_functions functions))"
    by (simp_all add: categorize_functions_def)
  from float_sum_whole [OF w] s assms(2)
  have t: "float_sum (totals (categorize_functions functions)) = sum_list (counts functions)"
    by simp
  from assms(1) have "list_all whole (counts functions)" by (simp add: whole_counts_def)
  from float_sum_whole [OF this assms(2)] s t show ?thesis by simp
qed

lemma d01: "fl (1 / 10) = 3602879701896397 / 36028797018963968"
  by (simp add: ev_fl)

lemma parse_fractional:
  "parse_flamegraph fractional_artifact
   = [(''fuse_read'', 3602879701896397 / 36028797018963968, 25 / 2),
      (''mutex_lock'', 3602879701896397 / 36028797018963968, 25 / 2),
      (''mutex_unlock'', 5404319552844595 / 9007199254740992, 75)]"
  by (simp add: fractional_artifact_def parse_flamegraph_def title_pattern_def ev_re ev_num ev_fl)

lemma totals_fractional:
  "map fst (categorize_functions (parse_flamegraph fractional_artifact))
     = [''FUSE Layer'', ''Synchronization'']
   \<and> totals (categorize_functions (parse_flamegraph fractional_artifact))
     = [3602879701896397 / 36028797018963968, 3152519739159347 / 4503599627370496]"
  unfolding parse_fractional
  by (simp add: categorize_functions_def category_of_def ev_str ev_fl)

lemma sums_fractional:
  "float_sum [3602879701896397 / 36028797018963968, 3152519739159347 / 4503599627370496]
     = 7205759403792793 / 9007199254740992
   \<and> float_sum [3602879701896397 / 36028797018963968, 3602879701896397 / 36028797018963968,
        5404319552844595 / 9007199254740992] = 3602879701896397 / 4503599627370496"
  by (simp add: ev_fl)

text \<open>
  Claim C1, as the code has it. Every sample is assigned to one category, none dropped or
  counted twice: in \<^verbatim>\<open>categorize_functions\<close> the functions filed under the categories
  are the input functions, each once, every one under the category of its label, and
  each category has one entry. With integer counts the per-category totals add up to
  the total exactly: always in scripts/analyze\_flamegraph\_simple.py, whose counts are
  ints, and in \<^verbatim>\<open>categorize_functions\<close>, whose counts are floats, when every count is a
  natural number and the total is below \<open>2 ^ 53\<close>; then the float sums of the totals and
  of the counts are that exact total too.
\<close>

theorem category_totals_partition:
  "sum_list (map snd (category_totals hotspots)) = sum_samples hotspots
   \<and> distinct (map fst (category_totals hotspots))
   \<and> mset (concat (map (cat_functions \<circ> snd) (categorize_functions functions)))
       = mset functions
   \<and> distinct (map fst (categorize_functions functions))
   \<and> well_filed (categorize_functions functions)
   \<and> (whole_counts functions \<longrightarrow> sum_list (counts functions) < 2 ^ 53 \<longrightarrow>
        sum_list (totals (categorize_functions functions)) = sum_list (counts functions)
        \<and> float_sum (totals (categorize_functions functions)) = sum_list (counts functions)
        \<and> float_sum (counts functions) = sum_list (counts functions))"
proof -
  have "sum_list (map snd (category_totals hotspots)) = sum_samples hotspots"
    by (simp add: category_totals_def sum_samples_def totals_fold_sum)
  moreover have "distinct (map fst (category_totals hotspots))"
    by (simp add: category_totals_def totals_fold_distinct)
  moreover have "mset (concat (map (cat_functions \<circ> snd) (categorize_functions functions)))
       = mset functions"
    by (simp add: categorize_functions_def cf_fold_mset)
  moreover have "distinct (map fst (categorize_functions functions))"
    by (simp add: categorize_functions_def cf_fold_distinct)
  moreover have "well_filed (categorize_functions functions)"
  proof -
    have "well_filed []" by (simp add: well_filed_def)
    then show ?thesis unfolding categorize_functions_def by (rule cf_fold_filed)
  qed
  ultimately show ?thesis using whole_totals by blast
qed

theorem category_totals_partition_witness:
  "category_totals
     [\<lparr>h_name = ''pthread_mutex_lock'', h_samples = 7, h_percentage = 46\<rparr>,
      \<lparr>h_name = ''Mutex::lock'', h_samples = 5, h_percentage = 33\<rparr>,
      \<lparr>h_name = ''moka::cache::get'', h_samples = 2, h_percentage = 13\<rparr>,
      \<lparr>h_name = ''std::rt::lang_start'', h_samples = 1, h_percentage = 6\<rparr>]
     = [(''Synchronization'', 12), (''Cache'', 2), (''Other'', 1)]
   \<and> sum_list (map snd (category_totals
     [\<lparr>h_name = ''pthread_mutex_lock'', h_samples = 7, h_percentage = 46\<rparr>,
      \<lparr>h_name = ''Mutex::lock'', h_samples = 5, h_percentage = 33\<rparr>,
      \<lparr>h_name = ''moka::cache::get'', h_samples = 2, h_percentage = 13\<rparr>,
      \<lparr>h_name = ''std::rt::lang_start'', h_samples = 1, h_percentage = 6\<rparr>])) = 15
   \<and> whole_counts
        [(''fuser::read'', 3, 30), (''aes_gcm::encrypt'', 5, 50), (''fuse_write'', 2, 20)]
   \<and> sum_list (totals (categorize_functions
        [(''fuser::read'', 3, 30), (''aes_gcm::encrypt'', 5, 50), (''fuse_write'', 2, 20)]))
       = 10
   \<and> float_sum (totals (categorize_functions
        [(''fuser::read'', 3, 30), (''aes_gcm::encrypt'', 5, 50), (''fuse_write'', 2, 20)]))
       = 10"
proof -
  let ?hs = "[\<lparr>h_name = ''pthread_mutex_lock'', h_samples = 7, h_percentage = 46\<rparr>,
      \<lparr>h_name = ''Mutex::lock'', h_samples = 5, h_percentage = 33\<rparr>,
      \<lparr>h_name = ''moka::cache::get'', h_samples = 2, h_percentage = 13\<rparr>,
      \<lparr>h_name = ''std::rt::lang_start'', h_samples = 1, h_percentage = 6\<rparr>]"
  let ?fs = "[(''fuser::read'', 3, 30), (''aes_gcm::encrypt'', 5, 50), (''fuse_write'', 2, 20)]
               :: func list"
  have a: "category_totals ?hs = [(''Synchronization'', 12), (''Cache'', 2), (''Other'', 1)]"
    by (simp add: category_totals_def categorize_def ev_str)
  have b: "sum_samples ?hs = 15" by (simp add: sum_samples_def)
  have w: "whole_counts ?fs" by (simp add: whole_counts_def whole_def)
  have c: "sum_list (counts ?fs) = 10" by simp
  have d: "sum_list (counts ?fs) < 2 ^ 53" by simp
  from category_totals_partition [of ?hs ?fs] b w d
  have "sum_list (map snd (category_totals ?hs)) = 15
     \<and> sum_list (totals (categorize_functions ?fs)) = sum_list (counts ?fs)
     \<and> float_sum (totals (categorize_functions ?fs)) = sum_list (counts ?fs)"
    by simp
  with a w c show ?thesis by simp
qed

text \<open>
  The artifact \<open>fractional_artifact\<close> has the counts 0.1, 0.1 and 0.6. Its two category
  totals, 0.1 and 0.7 as floats, add up neither to the exact sum of the counts nor to
  their float sum 0.8, whether the totals are added exactly or as floats.
\<close>

theorem category_totals_partition_counterexample:
  "map fst (categorize_functions (parse_flamegraph fractional_artifact))
     = [''FUSE Layer'', ''Synchronization'']
   \<and> counts (parse_flamegraph fractional_artifact) = [fl (1 / 10), fl (1 / 10), fl (6 / 10)]
   \<and> sum_list (totals (categorize_functions (parse_flamegraph fractional_artifact)))
       \<noteq> sum_list (counts (parse_flamegraph fractional_artifact))
   \<and> sum_list (totals (categorize_functions (parse_flamegraph fractional_artifact)))
       \<noteq> float_sum (counts (parse_flamegraph fractional_artifact))
   \<and> float_sum (totals (categorize_functions (parse_flamegraph fractional_artifact)))
       \<noteq> float_sum (counts (parse_flamegraph fractional_artifact))
   \<and> 0 < float_sum (counts (parse_flamegraph fractional_artifact))"
proof -
  note t = totals_fractional
  have c: "counts (parse_flamegraph fractional_artifact)
     = [3602879701896397 / 36028797018963968, 3602879701896397 / 36028797018963968,
        5404319552844595 / 9007199254740992]"
    by (simp add: parse_fractional)
  have f: "fl (1 / 10) = 3602879701896397 / 36028797018963968"
    "fl (6 / 10) = 5404319552844595 / 9007199254740992"
    by (simp_all add: ev_fl)
  note s = sums_fractional
  show ?thesis
    unfolding conjunct2 [OF t] c conjunct1 [OF s] conjunct2 [OF s] f
    using conjunct1 [OF t] by simp
qed

section \<open>Percentages of the reports\<close>

text \<open>The guarded percentage of \<^verbatim>\<open>print_analysis\<close> is 0 for every row of an all-zero report.\<close>

lemma print_analysis_guard:
  "float_sum (map (\<lambda>f. fst (snd f)) functions) \<le> 0
   \<Longrightarrow> list_all (\<lambda>r. fst (snd r) = 0) (print_analysis functions)"
  by (simp add: print_analysis_def Let_def list_all_iff split_beta)

text \<open>
  Claim C4. The percentage of a bucket is its total over the grand total times 100, and
  0 when the grand total is 0. \<^verbatim>\<open>print_analysis\<close> guards the division so; the two
  \<^verbatim>\<open>main\<close> reports do not. The artifact with the one annotation
  \<^verbatim>\<open>main (0 samples, 0.00%)\<close> yields one hotspot with zero samples, the report of
  scripts/analyze\_flamegraph\_simple.py on it raises ZeroDivisionError, and so does the
  report of scripts/extract\_flamegraph\_hotspots.py on the corresponding function list,
  where \<^verbatim>\<open>print_analysis\<close> reports 0 percent.
\<close>

theorem unguarded_percentage_zero_total:
  "extract_hotspots ''<title>main (0 samples, 0.00%)</title>''
     = Inr [\<lparr>h_name = ''main'', h_samples = 0, h_percentage = 0\<rparr>]
   \<and> simple_main [\<lparr>h_name = ''main'', h_samples = 0, h_percentage = 0\<rparr>]
     = Inl ZeroDivisionError
   \<and> hotspots_main [(''main'', 0)] = Inl ZeroDivisionError
   \<and> print_analysis [(''main'', 0, 0)] = [(''Other'', 0, 0)]"
  by (simp add: extract_hotspots_def hotspot_pattern_def decode_entities_def sort_desc_def
      ev_re ev_num simple_main_def sum_samples_def category_totals_def categorize_def
      ev_str py_div_def hotspots_main_def print_analysis_def categorize_functions_def
      category_of_def ev_fl)

section \<open>Entities in labels\<close>

text \<open>
  Claim C8. The extractor decodes the entities for less-than, greater-than and
  ampersand in a label. \<^verbatim>\<open>extract_hotspots\<close> does; \<^verbatim>\<open>parse_flamegraph\<close> returns the
  label as it stands in the artifact, entities included.
\<close>

theorem parse_flamegraph_keeps_entities:
  "parse_flamegraph ''<title>&lt;&amp;T as Drop&gt;::drop (5 samples, 1.00%)</title>''
     = [(''&lt;&amp;T as Drop&gt;::drop'', 5, 1)]
   \<and> extract_hotspots ''<title>&lt;&amp;T as Drop&gt;::drop (5 samples, 1.00%)</title>''
     = Inr [\<lparr>h_name = ''<&T as Drop>::drop'', h_samples = 5, h_percentage = 1\<rparr>]"
  by (simp add: parse_flamegraph_def title_pattern_def extract_hotspots_def hotspot_pattern_def
      decode_entities_def sort_desc_def ev_re ev_num ev_fl)

section \<open>The counter scan\<close>

lemma scan_line_cache_lookups: "cache_lookups (scan_line p line) = cache_lookups p"
  by (simp add: scan_line_def Let_def)

lemma fold_cache_lookups: "cache_lookups (foldl scan_line p ls) = cache_lookups p"
  by (induction ls arbitrary: p) (simp_all add: scan_line_cache_lookups)

text \<open>
  Claim C7. Every line increments the counter of each keyword class it matches without
  regard to case. The scan does so for \<^verbatim>\<open>lookup\<close> (and for the other lower-cased
  tests), but it looks for \<^verbatim>\<open>getattr\<close> in the line as written: the line
  \<^verbatim>\<open>GETATTR ino=1\<close> leaves \<^verbatim>\<open>stat_calls\<close> at 0 where \<^verbatim>\<open>getattr ino=1\<close> counts 1. And the
  counter \<^verbatim>\<open>cache_lookups\<close> is 0 after any log.
\<close>

theorem counter_scan_getattr_case:
  "stat_calls (analyze_log_patterns [''GETATTR ino=1'']) = 0
   \<and> stat_calls (analyze_log_patterns [''getattr ino=1'']) = 1
   \<and> lookup_calls (analyze_log_patterns [''LOOKUP name=a'']) = 1
   \<and> cache_lookups (analyze_log_patterns log_lines) = 0"
proof -
  have "stat_calls (analyze_log_patterns [''GETATTR ino=1'']) = 0"
    by (simp add: analyze_log_patterns_def scan_line_def no_patterns_def ev_str)
  moreover have "stat_calls (analyze_log_patterns [''getattr ino=1'']) = 1"
    by (simp add: analyze_log_patterns_def scan_line_def no_patterns_def ev_str)
  moreover have "lookup_calls (analyze_log_patterns [''LOOKUP name=a'']) = 1"
    by (simp add: analyze_log_patterns_def scan_line_def no_patterns_def ev_str)
  moreover have "cache_lookups (analyze_log_patterns log_lines) = 0"
    by (simp add: analyze_log_patterns_def fold_cache_lookups no_patterns_def)
  ultimately show ?thesis by blast
qed

section \<open>Timing extraction\<close>

text \<open>Text without an escape character passes the stripping unchanged.\<close>

lemma strip_plain: "CHR 0x1B \<notin> set xs \<Longrightarrow> re_sub_empty ansi_escape xs = xs"
  by (induction xs) (auto simp: ansi_escape_def)

lemma float_of_decimal:
  assumes "list_all is_digit ip" "list_all is_digit fp" "ip \<noteq> []"
  shows "float_of (ip @ CHR ''.'' # fp) = Some (decimal ip fp)"
proof -
  have nd: "\<not> is_digit CHR ''.''" by (simp add: is_digit_def digit_def)
  from assms(1) have a: "\<forall>c\<in>set ip. is_digit c" by (simp add: list_all_iff)
  from a nd have t: "takeWhile is_digit (ip @ CHR ''.'' # fp) = ip"
    by (simp add: takeWhile_append2 )
  from a nd have d: "dropWhile is_digit (ip @ CHR ''.'' # fp) = CHR ''.'' # fp"
    by (simp add: dropWhile_append2)
  from assms show ?thesis by (simp add: float_of_def t d decimal_def)
qed

lemma is_digit_eq: "is_digit = cls_match digit"
  by (rule ext) (simp add: is_digit_def)

lemma lazy_skip:
  "\<forall>c\<in>set m. \<not> cls_match d c \<Longrightarrow>
   bt (LazyStar Any # Open # One d # ts) (m @ s) (gs, None)
   = bt (LazyStar Any # Open # One d # ts) s (gs, None)"
  by (induction m) simp_all

lemma lazy_now: "bt ts s st = Some r \<Longrightarrow> bt (LazyStar c # ts) s st = Some r"
  by (cases s) simp_all

lemma star_run:
  "list_all (cls_match c) ds \<Longrightarrow> \<not> cls_match c y
   \<Longrightarrow> bt ts (y # ys) (gs, Some (t @ ds)) = Some r
   \<Longrightarrow> bt (Star c # ts) (ds @ y # ys) (gs, Some t) = Some r"
proof (induction ds arbitrary: t)
  case Nil
  then show ?case by simp
next
  case (Cons d ds)
  from Cons.prems have "bt ts (y # ys) (gs, Some ((t @ [d]) @ ds)) = Some r" by simp
  with Cons.IH [of "t @ [d]"] Cons.prems
  have "bt (Star c # ts) (ds @ y # ys) (gs, Some (t @ [d])) = Some r" by simp
  with Cons.prems show ?case by simp
qed

lemma plus_run:
  "ds \<noteq> [] \<Longrightarrow> list_all (cls_match c) ds \<Longrightarrow> \<not> cls_match c y
   \<Longrightarrow> bt ts (y # ys) (gs, Some (t @ ds)) = Some r
   \<Longrightarrow> bt (One c # Star c # ts) (ds @ y # ys) (gs, Some t) = Some r"
proof (cases ds)
  case Nil
  assume "ds \<noteq> []"
  with Nil show ?thesis by simp
next
  case (Cons d ds')
  assume a: "list_all (cls_match c) ds" "\<not> cls_match c y"
    "bt ts (y # ys) (gs, Some (t @ ds)) = Some r"
  from a Cons have "bt ts (y # ys) (gs, Some ((t @ [d]) @ ds')) = Some r" by simp
  with star_run [of c ds' y ts ys gs "t @ [d]" r] a Cons
  have "bt (Star c # ts) (ds' @ y # ys) (gs, Some (t @ [d])) = Some r" by simp
  with a Cons show ?thesis by simp
qed

lemma number_match:
  assumes "ip \<noteq> []" "fp \<noteq> []" "list_all is_digit ip" "list_all is_digit fp"
    and "\<not> is_digit y"
    and "bt ts (y # ys) (gs @ [ip @ CHR ''.'' # fp], None) = Some r"
  shows "bt (Open # One digit # Star digit # One (Lit CHR ''.'') # One digit # Star digit
              # Close # ts) (ip @ CHR ''.'' # fp @ y # ys) (gs, None) = Some r"
proof -
  have nd: "\<not> cls_match digit CHR ''.''" by (simp add: digit_def)
  from assms(6) have "bt (Close # ts) (y # ys) (gs, Some ((ip @ [CHR ''.'']) @ fp)) = Some r"
    by simp
  with plus_run [of fp digit y "Close # ts" ys gs "ip @ [CHR ''.'']" r] assms
  have "bt (One digit # Star digit # Close # ts) (fp @ y # ys) (gs, Some (ip @ [CHR ''.'']))
        = Some r"
    by (simp add: is_digit_eq)
  then have "bt (One (Lit CHR ''.'') # One digit # Star digit # Close # ts)
       (CHR ''.'' # fp @ y # ys) (gs, Some ([] @ ip)) = Some r" by simp
  with plus_run [of ip digit "CHR ''.''" "One (Lit CHR ''.'') # One digit # Star digit # Close # ts"
      "fp @ y # ys" gs "[]" r] assms nd
  have "bt (One digit # Star digit # One (Lit CHR ''.'') # One digit # Star digit # Close # ts)
       (ip @ CHR ''.'' # fp @ y # ys) (gs, Some []) = Some r"
    by (simp add: is_digit_eq)
  then show ?thesis by simp
qed

lemma unit_match:
  assumes "u = ''s'' \<or> u = ''ms''" "\<not> cls_match lowercase y"
    and "bt ts (y # ys) (gs @ [u], None) = Some r"
  shows "bt (Star Whitespace # Open # One lowercase # Star lowercase # Close # ts)
           (CHR '' '' # u @ y # ys) (gs, None) = Some r"
  using assms by (auto simp: whitespace_def lowercase_def)

lemma head_match:
  "bt ts s ([], None) = Some r \<Longrightarrow>
   bt (lits ''Time'' @ [LazyStar Any] @ lits ''mean'' @ ts) (''Time (mean'' @ s) ([], None)
   = Some r"
  by (simp add: lits_def)

lemma search_skip:
  "CHR ''T'' \<notin> set pre \<Longrightarrow>
   re_search (One (Lit CHR ''T'') # ts) (pre @ s) = re_search (One (Lit CHR ''T'') # ts) s"
  by (induction pre) auto

lemma timing_search:
  assumes "CHR ''T'' \<notin> set pre"
    and "\<forall>c\<in>set (a @ b). \<not> is_digit c"
    and "i1 \<noteq> []" "f1 \<noteq> []" "i2 \<noteq> []" "f2 \<noteq> []"
    and "list_all is_digit (i1 @ f1 @ i2 @ f2)"
    and "u1 = ''s'' \<or> u1 = ''ms''" and "u2 = ''s'' \<or> u2 = ''ms''"
    and "\<not> cls_match lowercase sep"
  shows "re_search timing_pattern
           (pre @ ''Time (mean'' @ a @ i1 @ ''.'' @ f1 @ '' '' @ u1 @ '' '' @ b
            @ i2 @ ''.'' @ f2 @ '' '' @ u2 @ sep # post)
         = Some ([i1 @ ''.'' @ f1, u1, i2 @ ''.'' @ f2, u2], sep # post)"
proof -
  let ?R = "([i1 @ ''.'' @ f1, u1, i2 @ ''.'' @ f2, u2], sep # post)"
  let ?unit = "\<lambda>ts. Star Whitespace # Open # One lowercase # Star lowercase # Close # ts"
  let ?number = "\<lambda>ts. Open # One digit # Star digit # One (Lit CHR ''.'') # One digit
                       # Star digit # Close # ts"
  have sp: "\<not> is_digit CHR '' ''" "\<not> cls_match lowercase CHR '' ''"
    by (simp_all add: is_digit_def digit_def lowercase_def)
  from assms(2) have na: "\<forall>c\<in>set a. \<not> cls_match digit c"
    and nb: "\<forall>c\<in>set (CHR '' '' # b). \<not> cls_match digit c"
    using sp by (auto simp: is_digit_def)
  from assms(7) have dg: "list_all is_digit i1" "list_all is_digit f1"
    "list_all is_digit i2" "list_all is_digit f2" by simp_all
  \<comment> \<open>from the end of the pattern to its start\<close>
  have s1: "bt [] (sep # post) ([i1 @ ''.'' @ f1, u1, i2 @ ''.'' @ f2] @ [u2], None) = Some ?R"
    by simp
  have s2: "bt (?unit []) (CHR '' '' # u2 @ sep # post)
              ([i1 @ ''.'' @ f1, u1, i2 @ ''.'' @ f2], None) = Some ?R"
    by (rule unit_match [OF assms(9) assms(10) s1])
  have s3: "bt (?number (?unit [])) (i2 @ CHR ''.'' # f2 @ CHR '' '' # u2 @ sep # post)
              ([i1 @ ''.'' @ f1, u1], None) = Some ?R"
    by (rule number_match [OF assms(5) assms(6) dg(3) dg(4) sp(1)]) (use s2 in simp)
  have s4: "bt (LazyStar Any # ?number (?unit []))
              ((CHR '' '' # b) @ i2 @ CHR ''.'' # f2 @ CHR '' '' # u2 @ sep # post)
              ([i1 @ ''.'' @ f1, u1], None) = Some ?R"
    unfolding lazy_skip [OF nb] by (rule lazy_now [OF s3])
  have s5: "bt (?unit (LazyStar Any # ?number (?unit [])))
              (CHR '' '' # u1 @ CHR '' '' # b @ i2 @ CHR ''.'' # f2 @ CHR '' '' # u2 @ sep # post)
              ([i1 @ ''.'' @ f1], None) = Some ?R"
    by (rule unit_match [OF assms(8) sp(2)]) (use s4 in simp)
  have s6: "bt (?number (?unit (LazyStar Any # ?number (?unit []))))
              (i1 @ CHR ''.'' # f1 @ CHR '' '' # u1 @ CHR '' '' # b @ i2 @ CHR ''.'' # f2
               @ CHR '' '' # u2 @ sep # post)
              ([], None) = Some ?R"
    by (rule number_match [OF assms(3) assms(4) dg(1) dg(2) sp(1)]) (use s5 in simp)
  have s7: "bt (LazyStar Any # ?number (?unit (LazyStar Any # ?number (?unit []))))
              (a @ i1 @ CHR ''.'' # f1 @ CHR '' '' # u1 @ CHR '' '' # b @ i2 @ CHR ''.'' # f2
               @ CHR '' '' # u2 @ sep # post)
              ([], None) = Some ?R"
    unfolding lazy_skip [OF na] by (rule lazy_now [OF s6])
  have tp: "timing_pattern = lits ''Time'' @ [LazyStar Any] @ lits ''mean''
     @ (LazyStar Any # ?number (?unit (LazyStar Any # ?number (?unit []))))"
    by (simp add: timing_pattern_def one_or_more_def)
  have s8: "bt timing_pattern
              (''Time (mean'' @ a @ i1 @ CHR ''.'' # f1 @ CHR '' '' # u1 @ CHR '' '' # b @ i2
               @ CHR ''.'' # f2 @ CHR '' '' # u2 @ sep # post)
              ([], None) = Some ?R"
    unfolding tp by (rule head_match [OF s7])
  have hd: "timing_pattern = One (Lit CHR ''T'') # tl timing_pattern"
    by (simp add: timing_pattern_def lits_def)
  have "re_search timing_pattern
           (pre @ ''Time (mean'' @ a @ i1 @ CHR ''.'' # f1 @ CHR '' '' # u1 @ CHR '' '' # b @ i2
               @ CHR ''.'' # f2 @ CHR '' '' # u2 @ sep # post)
        = re_search timing_pattern
           (''Time (mean'' @ a @ i1 @ CHR ''.'' # f1 @ CHR '' '' # u1 @ CHR '' '' # b @ i2
               @ CHR ''.'' # f2 @ CHR '' '' # u2 @ sep # post)"
    using search_skip [OF assms(1), of "tl timing_pattern"] hd by simp
  also have "\<dots> = Some ?R"
    using s8 by simp
  finally show ?thesis by simp
qed

text \<open>
  Claim C5. Timing extraction returns both values in milliseconds whatever their units.
  Let the text, once its escape sequences are stripped, read: anything without a
  capital T, then \<^verbatim>\<open>Time (mean\<close>, then text without digits, the mean as digits, a dot
  and digits, a space and its unit (\<^verbatim>\<open>s\<close> or \<^verbatim>\<open>ms\<close>), a space, text without digits,
  the deviation with its unit in the same form, and a character that is not a lower-case
  letter before whatever follows. Then the result is the mean and the deviation, each
  multiplied by 1000 when its unit is \<^verbatim>\<open>s\<close>. For the line 5.09 s plus-minus 11.71 ms
  this is 5090 and 11.71.
\<close>

theorem extract_metrics_normalizes:
  assumes "re_sub_empty ansi_escape content
             = pre @ ''Time (mean'' @ a @ i1 @ ''.'' @ f1 @ '' '' @ u1 @ '' '' @ b
               @ i2 @ ''.'' @ f2 @ '' '' @ u2 @ sep # post"
    and "CHR ''T'' \<notin> set pre"
    and "\<forall>c\<in>set (a @ b). \<not> is_digit c"
    and "i1 \<noteq> []" "f1 \<noteq> []" "i2 \<noteq> []" "f2 \<noteq> []"
    and "list_all is_digit (i1 @ f1 @ i2 @ f2)"
    and "u1 = ''s'' \<or> u1 = ''ms''" and "u2 = ''s'' \<or> u2 = ''ms''"
    and "\<not> cls_match lowercase sep"
  shows "extract_metrics (Some content)
         = Some (to_ms u1 (decimal i1 f1), to_ms u2 (decimal i2 f2))"
proof -
  from assms(8) have dg: "list_all is_digit i1" "list_all is_digit f1"
    "list_all is_digit i2" "list_all is_digit f2" by simp_all
  have fl1: "float_of (i1 @ CHR ''.'' # f1) = Some (decimal i1 f1)"
    by (rule float_of_decimal [OF dg(1) dg(2) assms(4)])
  have fl2: "float_of (i2 @ CHR ''.'' # f2) = Some (decimal i2 f2)"
    by (rule float_of_decimal [OF dg(3) dg(4) assms(6)])
  note s = timing_search [OF assms(2-11), of post]
  from assms(9) assms(10) show ?thesis
    unfolding extract_metrics.simps Let_def assms(1) s
    by (auto simp: fl1 fl2 to_ms_def)
qed


text \<open>The report \<open>hyperfine_report\<close>, colour codes included, yields 5090 and 11.71.\<close>

theorem extract_metrics_normalizes_witness:
  "extract_metrics (Some hyperfine_report) = Some (5090, 1171 / 100)"
proof -
  have c: "re_sub_empty ansi_escape hyperfine_report
     = (''Benchmark 1: oxbench'' @ [CHR 0x0A] @ ''  '') @ ''Time (mean''
       @ ('' '' @ [CHR 0xB1] @ '' s):     '') @ ''5'' @ ''.'' @ ''09'' @ '' '' @ ''s'' @ '' ''
       @ ([CHR 0xB1] @ ''  '') @ ''11'' @ ''.'' @ ''71'' @ '' '' @ ''ms''
       @ CHR '' '' # (''   [User: 1.20 s, System: 0.30 s]'' @ [CHR 0x0A])"
    by (simp add: hyperfine_report_def ansi_escape_def)
  have t: "CHR ''T'' \<notin> set (''Benchmark 1: oxbench'' @ [CHR 0x0A] @ ''  '')" by simp
  have ab: "\<forall>c\<in>set (('' '' @ [CHR 0xB1] @ '' s):     '') @ ([CHR 0xB1] @ ''  '')). \<not> is_digit c"
    by (simp add: is_digit_def digit_def)
  have ne: "''5'' \<noteq> []" "''09'' \<noteq> []" "''11'' \<noteq> []" "''71'' \<noteq> []" by simp_all
  have dg: "list_all is_digit (''5'' @ ''09'' @ ''11'' @ ''71'')"
    by (simp add: is_digit_def digit_def)
  have u: "''s'' = ''s'' \<or> ''s'' = ''ms''" "''ms'' = ''s'' \<or> ''ms'' = ''ms''" by simp_all
  have sp: "\<not> cls_match lowercase CHR '' ''" by (simp add: lowercase_def)
  have v: "to_ms ''s'' (decimal ''5'' ''09'') = 5090" "to_ms ''ms'' (decimal ''11'' ''71'') = 1171 / 100"
    by (simp_all add: to_ms_def decimal_def digits_val_def)
  from extract_metrics_normalizes [OF c t ab ne dg u sp] show ?thesis
    unfolding v .
qed

section \<open>The run comparator\<close>

text \<open>
  Claim C6, for a baseline mean other than 0. When both extractions succeed the
  comparator reports \<^verbatim>\<open>improvement_ms\<close> as baseline mean minus candidate mean and
  \<^verbatim>\<open>improvement_pct\<close> as that difference over the baseline mean times 100; for a
  positive baseline both are positive exactly when the candidate is faster.
\<close>

theorem compare_workload_delta:
  assumes "baseline_mean \<noteq> 0"
  shows "compare_workload w (Some (baseline_mean, bs)) (Some (phase1_mean, ps))
     = Inr (Compared w baseline_mean bs phase1_mean ps (baseline_mean - phase1_mean)
             ((baseline_mean - phase1_mean) / baseline_mean * 100))
   \<and> (0 < baseline_mean \<longrightarrow>
        (0 < baseline_mean - phase1_mean \<longleftrightarrow> phase1_mean < baseline_mean)
      \<and> (0 < (baseline_mean - phase1_mean) / baseline_mean * 100
           \<longleftrightarrow> phase1_mean < baseline_mean))"
  using assms by (auto simp: py_div_def zero_less_divide_iff)

text \<open>
  Baseline 5090 ms against 4500 ms: 590 ms, and a percentage that prints as +11.59.
\<close>

theorem compare_workload_delta_witness:
  "compare_workload ''concurrent'' (Some (5090, 1171 / 100)) (Some (4500, 10))
     = Inr (Compared ''concurrent'' 5090 (1171 / 100) 4500 10 590 (590 / 5090 * 100))
   \<and> (11585 / 1000 :: rat) \<le> 590 / 5090 * 100 \<and> (590 / 5090 * 100 :: rat) < 11595 / 1000
   \<and> (0 :: rat) < 590 / 5090 * 100"
proof -
  have h: "(5090::rat) \<noteq> 0" by simp
  from compare_workload_delta [OF h, of "''concurrent''" "1171 / 100" 4500 10]
  show ?thesis by simp
qed

text \<open>
  A report whose mean reads 0.0 ms is extracted as a mean of 0, and the comparison
  against it raises ZeroDivisionError instead of computing a percentage.
\<close>

theorem compare_workload_delta_counterexample:
  "extract_metrics (Some (timing_line ''0.0 ms'' ''0.1 ms'')) = Some (0, 1 / 10)
   \<and> compare_workload ''media'' (Some (0, 1 / 10)) (Some (4500, 10)) = Inl ZeroDivisionError"
  by (simp add: timing_line_def ansi_escape_def timing_pattern_def ev_re ev_num py_div_def)

text \<open>A failed extraction on either side is reported and raises nothing.\<close>

lemma compare_workload_missing:
  "baseline = None \<or> phase1 = None
   \<Longrightarrow> compare_workload w baseline phase1 = Inr (Could_not_extract w baseline phase1)"
  by (cases baseline; cases phase1) auto

lemma compare_workload_expected:
  "nonzero_baseline x \<Longrightarrow>
   compare_workload (fst x) (fst (snd x)) (snd (snd x)) = Inr (expected_report x)"
proof -
  obtain w b p where x: "x = (w, b, p)" by (cases x)
  assume nz: "nonzero_baseline x"
  show ?thesis
  proof (cases b)
    case None
    with x show ?thesis by simp
  next
    case (Some bl)
    obtain bm bs where bl: "bl = (bm, bs)" by (cases bl)
    show ?thesis
    proof (cases p)
      case None
      with x Some bl show ?thesis by simp
    next
      case (Some ph)
      obtain pm ps where ph: "ph = (pm, ps)" by (cases ph)
      from nz x \<open>b = Some bl\<close> bl Some have "bm \<noteq> 0" by simp
      with x \<open>b = Some bl\<close> bl Some ph show ?thesis by (simp add: py_div_def)
    qed
  qed
qed

lemma compare_all_expected:
  "list_all nonzero_baseline ws \<Longrightarrow> compare_all ws = (map expected_report ws, None)"
proof (induction ws)
  case Nil
  then show ?case by simp
next
  case (Cons x ws)
  obtain w b p where x: "x = (w, b, p)" by (cases x)
  from Cons.prems have "nonzero_baseline x" by simp
  from compare_workload_expected [OF this] x
  have "compare_workload w b p = Inr (expected_report x)" by simp
  with Cons x show ?case by simp
qed

text \<open>
  Claim C9, for a run in which no workload with two successful extractions has a
  baseline mean of 0. A workload for which either extraction fails is reported as not
  extractable, the run does not abort, and every workload of the run, before or after
  the failed one, gets its report: the comparison when both its extractions succeeded.
  Stated for any list of workloads with their extractions and for the run on a
  directory of files.
\<close>

theorem comparison_continues_after_failed_extraction:
  assumes "list_all nonzero_baseline ws"
    and "list_all nonzero_baseline (extractions files)"
  shows "compare_all ws = (map expected_report ws, None)
   \<and> run_comparison files = (map expected_report (extractions files), None)
   \<and> (baseline = None \<or> phase1 = None \<longrightarrow>
        expected_report (w, baseline, phase1) = Could_not_extract w baseline phase1)"
proof -
  have "run_comparison files = compare_all (extractions files)"
    by (simp add: run_comparison_def extractions_def)
  moreover have "baseline = None \<or> phase1 = None \<longrightarrow>
        expected_report (w, baseline, phase1) = Could_not_extract w baseline phase1"
    by (cases baseline; cases phase1) auto
  ultimately show ?thesis
    using compare_all_expected [OF assms(1)] compare_all_expected [OF assms(2)] by simp
qed

text \<open>
  On the directory \<open>bench_files_ok\<close> the first workload has no file and is reported as
  not extractable; the two others are compared.
\<close>

lemma extractions_ok:
  "extractions bench_files_ok
   = [(''concurrent'', None, None),
      (''media'', Some (3 / 10, 1 / 10), Some (1 / 5, 1 / 10)),
      (''backup'', Some (5090, 1171 / 100), Some (4500, 10))]"
  by (simp add: extractions_def workloads_def bench_files_ok_def timing_line_def
      ansi_escape_def timing_pattern_def ev_re ev_num)

theorem comparison_continues_after_failed_extraction_witness:
  "run_comparison bench_files_ok
   = ([Could_not_extract ''concurrent'' None None,
       Compared ''media'' (3 / 10) (1 / 10) (1 / 5) (1 / 10) (1 / 10) (100 / 3),
       Compared ''backup'' 5090 (1171 / 100) 4500 10 590 (5900 / 509)], None)
   \<and> compare_all [(''concurrent'', None, Some (4500, 10)), (''backup'', Some (5090, 1), Some (4500, 10))]
   = ([Could_not_extract ''concurrent'' None (Some (4500, 10)),
       Compared ''backup'' 5090 1 4500 10 590 (5900 / 509)], None)"
proof -
  let ?ws = "[(''concurrent'', None, Some (4500, 10)), (''backup'', Some (5090, 1), Some (4500, 10))]
     :: (string \<times> (rat \<times> rat) option \<times> (rat \<times> rat) option) list"
  have a: "list_all nonzero_baseline ?ws" by simp
  have b: "list_all nonzero_baseline (extractions bench_files_ok)"
    by (simp add: extractions_ok)
  from comparison_continues_after_failed_extraction [OF a b]
  have "compare_all ?ws = (map expected_report ?ws, None)"
    and "run_comparison bench_files_ok = (map expected_report (extractions bench_files_ok), None)"
    by simp_all
  then show ?thesis by (simp add: extractions_ok)
qed

text \<open>
  On the directory \<open>bench_files\<close> the first workload is reported as not extractable, the
  second has a baseline mean of 0 and ends the run with ZeroDivisionError, and the
  third, whose two extractions succeed, is never compared.
\<close>

theorem comparison_aborts_on_zero_baseline:
  "run_comparison bench_files
     = ([Could_not_extract ''concurrent'' None None], Some ZeroDivisionError)
   \<and> extract_metrics (bench_files ''benchmarks/baseline-backup.txt'') = Some (5090, 1171 / 100)
   \<and> extract_metrics (bench_files ''benchmarks/phase1-backup.txt'') = Some (4500, 10)"
  by (simp add: run_comparison_def workloads_def bench_files_def timing_line_def
      ansi_escape_def timing_pattern_def ev_re ev_num py_div_def)

section \<open>The live sampler\<close>

text \<open>
  Claim C10, for a payload whose \<^verbatim>\<open>cache\<close> entry is absent or an object. Extraction
  returns a snapshot, in which every counter missing from the payload is 0, every
  latency missing is 0.0, and the three cache fields are 0 when the cache object or
  their key in it is missing.
\<close>

theorem extract_snapshot_defaults:
  assumes "map_of stats ''cache'' = None \<or> (\<exists>c. map_of stats ''cache'' = Some (JObj c))"
  shows "\<exists>s. extract_snapshot now stats = Some s
    \<and> (map_of stats ''total_reads'' = None \<longrightarrow> total_reads s = JInt 0)
    \<and> (map_of stats ''total_writes'' = None \<longrightarrow> total_writes s = JInt 0)
    \<and> (map_of stats ''total_metadata_ops'' = None \<longrightarrow> total_metadata_ops s = JInt 0)
    \<and> (map_of stats ''bytes_read'' = None \<longrightarrow> bytes_read s = JInt 0)
    \<and> (map_of stats ''bytes_written'' = None \<longrightarrow> bytes_written s = JInt 0)
    \<and> (map_of stats ''total_errors'' = None \<longrightarrow> errors s = JInt 0)
    \<and> (map_of stats ''read_latency_avg_ms'' = None \<longrightarrow> read_latency_avg_ms s = JFloat 0)
    \<and> (map_of stats ''write_latency_avg_ms'' = None \<longrightarrow> write_latency_avg_ms s = JFloat 0)
    \<and> (map_of stats ''metadata_latency_avg_ms'' = None
          \<longrightarrow> metadata_latency_avg_ms s = JFloat 0)
    \<and> (map_of stats ''cache'' = None
          \<longrightarrow> cache_hits s = JInt 0 \<and> cache_misses s = JInt 0 \<and> cache_entries s = JInt 0)
    \<and> (\<forall>c. map_of stats ''cache'' = Some (JObj c) \<longrightarrow>
          (map_of c ''hits'' = None \<longrightarrow> cache_hits s = JInt 0)
          \<and> (map_of c ''misses'' = None \<longrightarrow> cache_misses s = JInt 0)
          \<and> (map_of c ''entries'' = None \<longrightarrow> cache_entries s = JInt 0))"
  using assms by (auto simp: extract_snapshot_def dict_get_def)

theorem extract_snapshot_defaults_witness:
  "(\<exists>s. extract_snapshot 10 [(''total_reads'', JInt 7), (''cache'', JObj [(''hits'', JInt 3)])]
          = Some s
      \<and> total_reads s = JInt 7 \<and> total_writes s = JInt 0 \<and> read_latency_avg_ms s = JFloat 0
      \<and> cache_hits s = JInt 3 \<and> cache_misses s = JInt 0)
   \<and> (\<exists>s. extract_snapshot 10 [] = Some s \<and> cache_entries s = JInt 0 \<and> errors s = JInt 0)"
proof -
  let ?st = "[(''total_reads'', JInt 7), (''cache'', JObj [(''hits'', JInt 3)])]"
  have h: "map_of ?st ''cache'' = None \<or> (\<exists>c. map_of ?st ''cache'' = Some (JObj c))" by simp
  from extract_snapshot_defaults [OF h, of 10]
  obtain s where s: "extract_snapshot 10 ?st = Some s" "total_writes s = JInt 0"
    "read_latency_avg_ms s = JFloat 0" "cache_misses s = JInt 0" by auto
  from s(1) have "total_reads s = JInt 7" "cache_hits s = JInt 3"
    by (auto simp: extract_snapshot_def dict_get_def)
  with s have a: "\<exists>s. extract_snapshot 10 ?st = Some s
     \<and> total_reads s = JInt 7 \<and> total_writes s = JInt 0 \<and> read_latency_avg_ms s = JFloat 0
     \<and> cache_hits s = JInt 3 \<and> cache_misses s = JInt 0" by blast
  have h2: "map_of ([] :: (string \<times> json) list) ''cache'' = None
     \<or> (\<exists>c. map_of ([] :: (string \<times> json) list) ''cache'' = Some (JObj c))" by simp
  from extract_snapshot_defaults [OF h2, of 10]
  have b: "\<exists>s. extract_snapshot 10 [] = Some s \<and> cache_entries s = JInt 0 \<and> errors s = JInt 0"
    by auto
  from a b show ?thesis by blast
qed

text \<open>
  A payload whose \<^verbatim>\<open>cache\<close> entry is \<^verbatim>\<open>null\<close> lacks the keys \<^verbatim>\<open>total_writes\<close>,
  \<^verbatim>\<open>hits\<close> and the others, and extraction returns no snapshot for it.
\<close>

theorem extract_snapshot_defaults_counterexample:
  "extract_snapshot 0 [(''total_reads'', JInt 7), (''cache'', JNull)] = None"
  by (simp add: extract_snapshot_def dict_get_def)

text \<open>With no time between two snapshots the row is never computed: a step raises.\<close>

lemma print_row_zero_elapsed:
  "timestamp current = timestamp prev \<Longrightarrow> \<exists>e. print_row start prev current = Inl e"
  by (auto simp: print_row_def bind_def rate_def py_sub_def py_div_def split: option.splits)

text \<open>
  Claim C2. Two successive successful polls with no time between their snapshots must
  leave the rates uncomputed, without an error. The loop divides by the elapsed time
  all the same: on two polls taken at the same time, with read counters 100 and 120, it
  prints no row and ends with ZeroDivisionError.
\<close>

theorem zero_elapsed_divides:
  "main_loop 0 None
     [(Some [(''total_reads'', JInt 100)], 5), (Some [(''total_reads'', JInt 120)], 5)]
   = ([], Some ZeroDivisionError)"
  by (simp add: extract_snapshot_def dict_get_def print_row_def bind_def rate_def py_sub_def
      py_div_def)

end
